theory Spec2Isabelle
  imports Complex_Main "HOL-Library.Multiset"
begin

section \<open>The task list of script.js\<close>

text \<open>
  script.js keeps its whole state in the page: a task is an \<open>li\<close> element of
  \<open>#list-container\<close>, its fields are \<open>data-*\<close> attributes (strings, or absent),
  CSS classes (\<open>completed\<close>, \<open>collapsed\<close>), the text of child elements and the
  \<open>checked\<close> state of its checkbox; a sub-step is an \<open>li\<close> of the task's
  \<open>.substeps-list\<close>. The records below are those elements, field by field. A handler
  that mutates an element is a function that returns the new element.

  The text of an attribute, an input field or an element is a \<open>string\<close>: a list of
  8-bit characters, read as the code units U+0000 to U+00FF. Pasted text, which can
  hold any character, is a list of UTF-16 code units (section Smart paste).
  A \<open>data-*\<close> attribute is a \<open>string option\<close>, \<open>None\<close> when the attribute is
  absent (JavaScript reads \<open>undefined\<close>).

  Left out, because no modelled function reads them back: the markup built by
  \<open>innerHTML\<close>, the progress bar, the badges, icons, timer displays and counters,
  the matrix view, \<open>dataset.id\<close> (a random drag handle), \<open>dataset.description\<close>
  and \<open>dataset.effort\<close>.
\<close>

subsection \<open>Strings, truthiness and numbers\<close>

definition truthy :: "string option \<Rightarrow> bool" where
  \<comment> \<open>\<open>if (x)\<close> on a string or undefined: false for undefined and for the empty string\<close>
  "truthy x = (case x of None \<Rightarrow> False | Some s \<Rightarrow> s \<noteq> [])"

definition orElse :: "string option \<Rightarrow> string \<Rightarrow> string" where
  \<comment> \<open>\<open>x || d\<close> on a string or undefined\<close>
  "orElse x d = (case x of None \<Rightarrow> d | Some s \<Rightarrow> if s = [] then d else s)"

definition orElseStr :: "string \<Rightarrow> string \<Rightarrow> string" where
  \<comment> \<open>\<open>s || d\<close> on a string\<close>
  "orElseStr s d = (if s = [] then d else s)"

definition isWhiteSpace :: "char \<Rightarrow> bool" where
  \<comment> \<open>what \<open>trim\<close>, \<open>parseInt\<close> and the regular expression's \<open>\s\<close> skip: TAB, LF, VT,
     FF, CR, space and no-break space (the white space below U+0100)\<close>
  "isWhiteSpace c = (let n = (of_char c :: nat) in (9 \<le> n \<and> n \<le> 13) \<or> n = 32 \<or> n = 160)"

definition isDigit :: "char \<Rightarrow> bool" where
  "isDigit c = (let n = (of_char c :: nat) in 48 \<le> n \<and> n \<le> 57)"

definition trimStart :: "string \<Rightarrow> string" where
  "trimStart s = dropWhile isWhiteSpace s"

definition trim :: "string \<Rightarrow> string" where
  "trim s = rev (dropWhile isWhiteSpace (rev (dropWhile isWhiteSpace s)))"

definition digitChar :: "nat \<Rightarrow> char" where
  "digitChar d = ''0123456789'' ! d"

function showNat :: "nat \<Rightarrow> string" where
  "showNat n = (if n < 10 then [digitChar n] else showNat (n div 10) @ [digitChar (n mod 10)])"
  by pat_completeness auto
termination
  by (relation "measure (\<lambda>n. n)") auto

declare showNat.simps [simp del]

text \<open>
  The numbers that \<open>parseInt\<close> and the sort comparator produce: the integers that
  are doubles, the two infinities and NaN.
\<close>

datatype jsnum = Finite int | PosInfinity | NegInfinity | NaN

fun jsMinus :: "jsnum \<Rightarrow> jsnum \<Rightarrow> jsnum" where
  "jsMinus NaN _ = NaN"
| "jsMinus _ NaN = NaN"
| "jsMinus (Finite a) (Finite b) = Finite (a - b)"
| "jsMinus (Finite a) PosInfinity = NegInfinity"
| "jsMinus (Finite a) NegInfinity = PosInfinity"
| "jsMinus PosInfinity PosInfinity = NaN"
| "jsMinus PosInfinity _ = PosInfinity"
| "jsMinus NegInfinity NegInfinity = NaN"
| "jsMinus NegInfinity _ = NegInfinity"

fun jsLess :: "jsnum \<Rightarrow> int \<Rightarrow> bool" where
  \<comment> \<open>\<open>x < k\<close> for an integer \<open>k\<close>; every comparison with NaN is false\<close>
  "jsLess (Finite a) k = (a < k)"
| "jsLess NegInfinity k = True"
| "jsLess _ k = False"

fun jsLessEq :: "jsnum \<Rightarrow> int \<Rightarrow> bool" where
  "jsLessEq (Finite a) k = (a \<le> k)"
| "jsLessEq NegInfinity k = True"
| "jsLessEq _ k = False"

fun jsGreaterEq :: "jsnum \<Rightarrow> int \<Rightarrow> bool" where
  "jsGreaterEq (Finite a) k = (a \<ge> k)"
| "jsGreaterEq PosInfinity k = True"
| "jsGreaterEq _ k = False"

function bitLength :: "nat \<Rightarrow> nat" where
  \<comment> \<open>the number of binary digits of \<open>n\<close>\<close>
  "bitLength n = (if n = 0 then 0 else Suc (bitLength (n div 2)))"
  by pat_completeness auto
termination
  by (relation "measure (\<lambda>n. n)") auto

declare bitLength.simps [simp del]

definition doubleOfNat :: "nat \<Rightarrow> nat option" where
  \<comment> \<open>the Number value of a non-negative integer: the nearest double, a tie going to
     the even significand of 53 bits; \<open>None\<close> is \<open>Infinity\<close>. Integers below \<open>2^53\<close>
     are doubles themselves.\<close>
  "doubleOfNat v =
     (if v < 9007199254740992 then Some v
      else let sh = bitLength v - 53;
               q = v div 2 ^ sh;
               r = v mod 2 ^ sh;
               half = 2 ^ (sh - 1);
               q' = (if half < r \<or> (r = half \<and> odd q) then q + 1 else q);
               d = q' * 2 ^ sh
           in if 2 ^ 1024 \<le> d then None else Some d)"

definition shortestAt :: "nat \<Rightarrow> nat \<Rightarrow> nat option" where
  \<comment> \<open>a multiple of \<open>10^e\<close> next to the double \<open>d\<close> whose Number value is \<open>d\<close>, if there
     is one: the nearer of the two neighbours, the even one of two equally near\<close>
  "shortestAt d e =
     (let p = 10 ^ e;
          lo = (d div p) * p;
          hi = lo + p;
          okLo = (doubleOfNat lo = Some d);
          okHi = (doubleOfNat hi = Some d)
      in if okLo \<and> okHi
         then Some (if d - lo < hi - d then lo
                    else if hi - d < d - lo then hi
                    else if even (d div p) then lo else hi)
         else if okLo then Some lo
         else if okHi then Some hi
         else None)"

fun firstShortest :: "nat \<Rightarrow> nat list \<Rightarrow> nat" where
  "firstShortest d [] = d"
| "firstShortest d (e # es) =
     (case shortestAt d e of Some y \<Rightarrow> y | None \<Rightarrow> firstShortest d es)"

definition shortestDecimal :: "nat \<Rightarrow> nat" where
  \<comment> \<open>the integer with the fewest significant digits whose Number value is \<open>d\<close>: the
     exponents are tried from the largest down\<close>
  "shortestDecimal d = firstShortest d (rev [1..<length (showNat d)])"

definition showDouble :: "nat \<Rightarrow> string" where
  \<comment> \<open>\<open>Number::toString\<close> of ECMAScript for a double that is a non-negative integer:
     the shortest digits that read back as the same double, padded with zeros up to 21
     digits and in exponent notation beyond\<close>
  "showDouble d =
     (if d < 9007199254740992 then showNat d
      else let digits = showNat (shortestDecimal d);
               n = length digits;
               s = rev (dropWhile (\<lambda>c. c = CHR ''0'') (rev digits))
           in if n \<le> 21 then digits
              else (if length s = 1 then s else hd s # CHR ''.'' # tl s)
                   @ ''e+'' @ showNat (n - 1))"

definition String_number :: "jsnum \<Rightarrow> string" where
  \<comment> \<open>\<open>String(x)\<close> for an integer, an infinity or NaN\<close>
  "String_number x =
     (case x of
        NaN \<Rightarrow> ''NaN''
      | PosInfinity \<Rightarrow> ''Infinity''
      | NegInfinity \<Rightarrow> ''-Infinity''
      | Finite i \<Rightarrow> if i < 0 then CHR ''-'' # showDouble (nat (- i)) else showDouble (nat i))"

definition String_bool :: "bool \<Rightarrow> string" where
  "String_bool b = (if b then ''true'' else ''false'')"

definition digitsValue :: "string \<Rightarrow> nat" where
  "digitsValue ds = foldl (\<lambda>acc c. 10 * acc + (of_char c - 48)) 0 ds"

definition parseInt :: "string \<Rightarrow> jsnum" where
  \<comment> \<open>\<open>parseInt(s, 10)\<close>: skip leading white space, read an optional sign, then the
     longest run of decimal digits; NaN when that run is empty, else the Number value
     of the integer read. (Beyond 20 significant digits ECMAScript lets an engine read
     the further digits as zeros; the exact integer is taken here.)\<close>
  "parseInt s =
     (let t = trimStart s;
          neg = (t \<noteq> [] \<and> hd t = CHR ''-'');
          r = (if t \<noteq> [] \<and> (hd t = CHR ''-'' \<or> hd t = CHR ''+'') then tl t else t);
          ds = takeWhile isDigit r
      in if ds = [] then NaN
         else (case doubleOfNat (digitsValue ds) of
                 None \<Rightarrow> (if neg then NegInfinity else PosInfinity)
               | Some d \<Rightarrow> Finite (if neg then - int d else int d)))"

subsection \<open>Elements\<close>

record substep =
  s_substepId :: "string option"      \<comment> \<open>\<open>dataset.substepId\<close>\<close>
  s_text :: string                    \<comment> \<open>text of \<open>.substep-text\<close>\<close>
  s_completed :: bool                 \<comment> \<open>class \<open>completed\<close>\<close>
  s_checked :: bool                   \<comment> \<open>\<open>.substep-checkbox\<close> checked\<close>
  s_etaMin :: "string option"         \<comment> \<open>\<open>dataset.etaMin\<close>\<close>
  s_elapsedMs :: "string option"      \<comment> \<open>\<open>dataset.elapsedMs\<close>\<close>
  s_timerRunning :: "string option"   \<comment> \<open>\<open>dataset.timerRunning\<close>\<close>
  s_timerInterval :: bool             \<comment> \<open>\<open>_timerInterval\<close> holds a live ticker\<close>

record task =
  taskId :: "string option"           \<comment> \<open>\<open>dataset.taskId\<close>\<close>
  taskText :: string                  \<comment> \<open>text of \<open>.task-text\<close>\<close>
  taskDesc :: string                  \<comment> \<open>value of the \<open>.task-desc\<close> textarea\<close>
  priority :: "string option"         \<comment> \<open>\<open>dataset.priority\<close>\<close>
  deadline :: "string option"         \<comment> \<open>\<open>dataset.deadline\<close>\<close>
  etaMin :: "string option"           \<comment> \<open>\<open>dataset.etaMin\<close>\<close>
  isUrgent :: "string option"         \<comment> \<open>\<open>dataset.isUrgent\<close>\<close>
  isImportant :: "string option"      \<comment> \<open>\<open>dataset.isImportant\<close>\<close>
  matrixTouched :: "string option"    \<comment> \<open>\<open>dataset.matrixTouched\<close>\<close>
  elapsedMs :: "string option"        \<comment> \<open>\<open>dataset.elapsedMs\<close>\<close>
  timerRunning :: "string option"     \<comment> \<open>\<open>dataset.timerRunning\<close>\<close>
  timerInterval :: bool               \<comment> \<open>\<open>_timerInterval\<close> holds a live ticker\<close>
  completed :: bool                   \<comment> \<open>class \<open>completed\<close>\<close>
  checked :: bool                     \<comment> \<open>\<open>.task-checkbox\<close> checked\<close>
  collapsed :: bool                   \<comment> \<open>class \<open>collapsed\<close>\<close>
  substeps :: "substep list"          \<comment> \<open>children of \<open>.substeps-list\<close>, in order\<close>

subsection \<open>Sub-step summary\<close>

definition updateSubstepSummary :: "task \<Rightarrow> task" where
  \<comment> \<open>lines 886-904; every child of \<open>.substeps-list\<close> has class \<open>substep\<close>, so the
     second query counts the completed children\<close>
  "updateSubstepSummary parentLi =
     (let total = length (substeps parentLi);
          completedN = length (filter s_completed (substeps parentLi))
      in if completedN > 0 \<and> completedN = total
         then parentLi\<lparr>completed := True, checked := True\<rparr>
         else parentLi\<lparr>completed := False, checked := False\<rparr>)"

definition createSubstepElement :: "string \<Rightarrow> substep" where
  \<comment> \<open>lines 1035-1074\<close>
  "createSubstepElement t =
     \<lparr>s_substepId = None, s_text = t, s_completed = False, s_checked = False,
      s_etaMin = None, s_elapsedMs = Some ''0'', s_timerRunning = None,
      s_timerInterval = False\<rparr>"

definition substepCheckboxClick :: "nat \<Rightarrow> task \<Rightarrow> task" where
  \<comment> \<open>lines 1091-1097, for the sub-step at position \<open>i\<close>: the browser flips the
     checkbox, then the handler copies it to the class and recomputes the parent\<close>
  "substepCheckboxClick i parentLi =
     (if i < length (substeps parentLi)
      then let subLi = substeps parentLi ! i;
               cb = \<not> s_checked subLi;
               subLi' = subLi\<lparr>s_checked := cb, s_completed := cb\<rparr>
           in updateSubstepSummary (parentLi\<lparr>substeps := (substeps parentLi)[i := subLi']\<rparr>)
      else parentLi)"

definition substepDeleteClick :: "nat \<Rightarrow> task \<Rightarrow> task" where
  \<comment> \<open>lines 1119-1123, for the sub-step at position \<open>i\<close>\<close>
  "substepDeleteClick i parentLi =
     (if i < length (substeps parentLi)
      then updateSubstepSummary
             (parentLi\<lparr>substeps := take i (substeps parentLi) @ drop (Suc i) (substeps parentLi)\<rparr>)
      else parentLi)"

definition addSubFromInput :: "string \<Rightarrow> nat \<Rightarrow> task \<Rightarrow> task \<times> nat" where
  \<comment> \<open>lines 1821-1842; the second argument and result is \<open>taskIdCounter\<close>\<close>
  "addSubFromInput subInput taskIdCounter li =
     (let t = trim subInput
      in if t = [] then (li, taskIdCounter)
         else let s = (createSubstepElement t)
                        \<lparr>s_substepId := Some (''substep-'' @ showNat taskIdCounter)\<rparr>
              in (updateSubstepSummary (li\<lparr>substeps := substeps li @ [s]\<rparr>),
                  Suc taskIdCounter))"

fun appendSubsteps :: "string list \<Rightarrow> nat \<Rightarrow> substep list \<Rightarrow> substep list \<times> nat" where
  \<comment> \<open>the \<open>forEach\<close> of lines 1325-1331\<close>
  "appendSubsteps [] n subList = (subList, n)"
| "appendSubsteps (stepText # rest) n subList =
     appendSubsteps rest (Suc n)
       (subList @ [(createSubstepElement stepText)
                     \<lparr>s_substepId := Some (''substep-'' @ showNat n)\<rparr>])"

definition addSubstepsToTask :: "string list \<Rightarrow> nat \<Rightarrow> task \<Rightarrow> task \<times> nat" where
  \<comment> \<open>lines 1318-1336\<close>
  "addSubstepsToTask subSteps taskIdCounter taskLi =
     (if subSteps = [] then (taskLi, taskIdCounter)
      else let (subList, n) = appendSubsteps subSteps taskIdCounter (substeps taskLi)
           in (updateSubstepSummary (taskLi\<lparr>substeps := subList\<rparr>), n))"

subsection \<open>The task checkbox\<close>

definition taskCheckboxClick :: "nat \<Rightarrow> task list \<Rightarrow> task list" where
  \<comment> \<open>lines 1705-1723 with \<open>moveCompletedTaskToBottom\<close> (635-638), for the task at
     position \<open>i\<close> of \<open>#list-container\<close>: \<open>appendChild\<close> of a node that is already a
     child moves it to the end\<close>
  "taskCheckboxClick i listContainer =
     (if i < length listContainer
      then let li = listContainer ! i;
               cb = \<not> checked li;
               li' = li\<lparr>checked := cb, completed := cb\<rparr>
           in if cb then take i listContainer @ drop (Suc i) listContainer @ [li']
              else listContainer[i := li']
      else listContainer)"

subsection \<open>Estimate inputs\<close>

definition etaInputChange :: "string \<Rightarrow> task \<Rightarrow> task" where
  \<comment> \<open>lines 1761-1775: the \<open>change\<close> handler of a task's \<open>.eta-input\<close>, whose value
     is the first argument; the badge, the timer card and the matrix view it refreshes
     are display only\<close>
  "etaInputChange val li =
     (let v = trim val
      in if v \<noteq> []
         then let etaVal = parseInt v in li\<lparr>etaMin := Some (String_number etaVal)\<rparr>
         else li\<lparr>etaMin := None\<rparr>)"

definition substepEtaInputChange :: "string \<Rightarrow> substep \<Rightarrow> substep" where
  \<comment> \<open>lines 1102-1113: the \<open>change\<close> handler of a sub-step's \<open>.substep-eta-input\<close>\<close>
  "substepEtaInputChange val subLi =
     (let v = trim val
      in if v \<noteq> []
         then subLi\<lparr>s_etaMin := Some (String_number (parseInt v))\<rparr>
         else subLi\<lparr>s_etaMin := None\<rparr>)"

subsection \<open>Urgent and important\<close>

definition urgentToggleChange :: "bool \<Rightarrow> task \<Rightarrow> task" where
  \<comment> \<open>lines 1680-1685; the first argument is \<open>urgentToggle.checked\<close>. The handler ends
     with \<open>sortTasks()\<close>, which reorders the list and writes no element.\<close>
  "urgentToggleChange toggleChecked li =
     li\<lparr>isUrgent := Some (if toggleChecked then ''true'' else ''false''),
        matrixTouched := Some ''true''\<rparr>"

definition importantToggleChange :: "bool \<Rightarrow> task \<Rightarrow> task" where
  \<comment> \<open>lines 1689-1694\<close>
  "importantToggleChange toggleChecked li =
     li\<lparr>isImportant := Some (if toggleChecked then ''true'' else ''false''),
        matrixTouched := Some ''true''\<rparr>"

definition matrixDrop :: "string \<Rightarrow> task \<Rightarrow> task" where
  \<comment> \<open>lines 1472-1485: what the \<open>drop\<close> handler of a matrix cell writes to the task
     that its lookup (line 1469) finds; the first argument is the cell's
     \<open>data-quadrant\<close>\<close>
  "matrixDrop quadrant taskLi =
     (if quadrant = ''do-first''
      then taskLi\<lparr>isUrgent := Some ''true'', isImportant := Some ''true''\<rparr>
      else if quadrant = ''schedule''
      then taskLi\<lparr>isUrgent := Some ''false'', isImportant := Some ''true''\<rparr>
      else if quadrant = ''delegate''
      then taskLi\<lparr>isUrgent := Some ''true'', isImportant := Some ''false''\<rparr>
      else if quadrant = ''eliminate''
      then taskLi\<lparr>isUrgent := Some ''false'', isImportant := Some ''false''\<rparr>
      else taskLi)"

definition getTaskCategory :: "jsnum \<Rightarrow> string" where
  \<comment> \<open>lines 1201-1209; the result is the \<open>label\<close> of the object returned\<close>
  "getTaskCategory etaMinutes =
     (if jsLess etaMinutes 15 then ''Quick''
      else if jsGreaterEq etaMinutes 15 \<and> jsLessEq etaMinutes 60 then ''Core''
      else ''Major'')"

definition applyDeadline :: "string \<Rightarrow> task \<Rightarrow> task" where
  \<comment> \<open>lines 812-833, what the function writes to the element; its last line is the
     comment \<open>Recompute importance/urgency based on deadline\<close>, with no statement
     after it. The \<open>change\<close> handler of the deadline input (1749-1755) calls it and
     then sorts and redraws.\<close>
  "applyDeadline dl li = li\<lparr>deadline := (if dl = [] then None else Some dl)\<rparr>"

record clock =
  fullYear :: nat     \<comment> \<open>\<open>now.getFullYear()\<close>\<close>
  month :: nat        \<comment> \<open>\<open>now.getMonth()\<close>, 0 to 11\<close>
  date :: nat         \<comment> \<open>\<open>now.getDate()\<close>, 1 to 31\<close>

definition padStart2 :: "string \<Rightarrow> string" where
  \<comment> \<open>\<open>s.padStart(2, '0')\<close>\<close>
  "padStart2 s = replicate (2 - length s) (CHR ''0'') @ s"

definition todayString :: "clock \<Rightarrow> string" where
  \<comment> \<open>line 1418\<close>
  "todayString now =
     showNat (fullYear now) @ ''-'' @ padStart2 (showNat (month now + 1)) @ ''-''
       @ padStart2 (showNat (date now))"

definition estimateMinutes :: "task \<Rightarrow> jsnum option" where
  \<comment> \<open>line 1403: \<open>dataset.etaMin ? parseInt(dataset.etaMin, 10) : null\<close>; \<open>None\<close> is
     \<open>null\<close>\<close>
  "estimateMinutes taskLi =
     (if truthy (etaMin taskLi) then Some (parseInt (the (etaMin taskLi))) else None)"

definition autoClassifyTask :: "clock \<Rightarrow> task \<Rightarrow> task" where
  \<comment> \<open>lines 1401-1424; \<open>now\<close> is the \<open>new Date()\<close> read at line 1417. No statement of
     script.js calls this function.\<close>
  "autoClassifyTask now taskLi =
     (let etaVal = estimateMinutes taskLi;
          dl = orElse (deadline taskLi) [];
          isImportant0 = True;
          isUrgent0 = False;
          (isImportant1, isUrgent1) =
            (case etaVal of
               None \<Rightarrow> (isImportant0, isUrgent0)
             | Some n \<Rightarrow>
                 (if n = NaN then (isImportant0, isUrgent0)
                  else let category = getTaskCategory n;
                           a = (if category = ''Quick'' then False else isImportant0);
                           b = (if category = ''Core'' \<or> category = ''Major'' then True else a);
                           c = (if jsLess n 60 then True else isUrgent0)
                       in (b, c)));
          isUrgent2 = (if dl \<noteq> [] \<and> dl = todayString now then True else isUrgent1)
      in taskLi\<lparr>isImportant := Some (String_bool isImportant1),
                isUrgent := Some (String_bool isUrgent2)\<rparr>)"

definition matrixTargetCell :: "task \<Rightarrow> string" where
  \<comment> \<open>lines 1444-1450 of \<open>renderMatrixView\<close>: the id of the cell a task is listed in\<close>
  "matrixTargetCell t =
     (let important = (isImportant t \<noteq> Some ''false'');
          urgent = (isUrgent t = Some ''true'')
      in if urgent \<and> important then ''matrix-do-first''
         else if \<not> urgent \<and> important then ''matrix-schedule''
         else if urgent \<and> \<not> important then ''matrix-delegate''
         else ''matrix-eliminate'')"

subsection \<open>Persistence\<close>

text \<open>
  \<open>saveTasks\<close> writes \<open>JSON.stringify\<close> of an array of plain objects and
  \<open>loadTasks\<close> reads it with \<open>JSON.parse\<close>. The stored document is modelled as
  the array itself, a list of the records below: \<open>JSON.parse\<close> inverts
  \<open>JSON.stringify\<close> on objects of strings, booleans and arrays. What
  \<open>localStorage\<close> holds is a \<open>taskRec list option\<close>, \<open>None\<close> when the key is
  missing or its text is not a JSON array.
\<close>

record substepRec =
  r_s_id :: string
  r_s_text :: string
  r_s_completed :: bool
  r_s_etaMin :: string
  r_s_elapsedMs :: string

record taskRec =
  r_id :: string
  r_text :: string
  r_desc :: string
  r_deadline :: string
  r_etaMin :: string
  r_completed :: bool
  r_isUrgent :: string
  r_isImportant :: string
  r_elapsedMs :: string
  r_collapsed :: bool
  r_substeps :: "substepRec list"

definition serializeSubstep :: "substep \<Rightarrow> substepRec" where
  \<comment> \<open>lines 205-213\<close>
  "serializeSubstep subLi =
     \<lparr>r_s_id = orElse (s_substepId subLi) [],
      r_s_text = orElseStr (s_text subLi) [],
      r_s_completed = s_completed subLi,
      r_s_etaMin = orElse (s_etaMin subLi) [],
      r_s_elapsedMs = orElse (s_elapsedMs subLi) ''0''\<rparr>"

definition serializeTask :: "task \<Rightarrow> taskRec" where
  \<comment> \<open>lines 215-229\<close>
  "serializeTask li =
     \<lparr>r_id = orElse (taskId li) [],
      r_text = orElseStr (taskText li) [],
      r_desc = orElseStr (taskDesc li) [],
      r_deadline = orElse (deadline li) [],
      r_etaMin = orElse (etaMin li) [],
      r_completed = completed li,
      r_isUrgent = orElse (isUrgent li) ''false'',
      r_isImportant = orElse (isImportant li) ''false'',
      r_elapsedMs = orElse (elapsedMs li) ''0'',
      r_collapsed = collapsed li,
      r_substeps = map serializeSubstep (substeps li)\<rparr>"

definition saveTasks :: "task list \<Rightarrow> taskRec list" where
  \<comment> \<open>lines 231-235: the value stored under \<open>TASKS_STORAGE_KEY\<close>\<close>
  "saveTasks listContainer = map serializeTask listContainer"

definition createTaskElement :: "string \<Rightarrow> string \<Rightarrow> string \<Rightarrow> task" where
  \<comment> \<open>lines 1501-1600, with \<open>applyPriorityClass\<close> (650-661), \<open>applyDeadline\<close>
     (812-833) and \<open>createTaskTimerPanel\<close> (498-535)\<close>
  "createTaskElement txt prio dl =
     \<lparr>taskId = None, taskText = txt, taskDesc = [], priority = Some prio,
      deadline = (if dl = [] then None else Some dl), etaMin = None,
      isUrgent = Some ''false'', isImportant = Some ''false'',
      matrixTouched = Some ''false'', elapsedMs = Some ''0'', timerRunning = None,
      timerInterval = False, completed = False, checked = False, collapsed = False,
      substeps = []\<rparr>"

definition attachTaskEventHandlers :: "nat \<Rightarrow> task \<Rightarrow> task \<times> nat" where
  \<comment> \<open>lines 1659-1891, what the call itself changes: the summary is recomputed (line
     1885) and a task without an id gets one from \<open>taskIdCounter\<close> (1888-1890)\<close>
  "attachTaskEventHandlers taskIdCounter li =
     (let li1 = updateSubstepSummary li
      in if \<not> truthy (taskId li1)
         then (li1\<lparr>taskId := Some (''task-'' @ showNat taskIdCounter)\<rparr>, Suc taskIdCounter)
         else (li1, taskIdCounter))"

definition loadSubstep :: "substepRec \<Rightarrow> substep" where
  \<comment> \<open>lines 281-290 (\<open>attachSubstepHandlers\<close> only registers handlers)\<close>
  "loadSubstep sub =
     (let subLi0 = createSubstepElement (orElseStr (r_s_text sub) []);
          subLi1 = (if r_s_id sub \<noteq> [] then subLi0\<lparr>s_substepId := Some (r_s_id sub)\<rparr>
                    else subLi0);
          subLi2 = subLi1\<lparr>s_elapsedMs := Some (orElseStr (r_s_elapsedMs sub) ''0'')\<rparr>;
          subLi3 = (if r_s_etaMin sub \<noteq> [] then subLi2\<lparr>s_etaMin := Some (r_s_etaMin sub)\<rparr>
                    else subLi2)
      in if r_s_completed sub then subLi3\<lparr>s_completed := True, s_checked := True\<rparr>
         else subLi3)"

definition loadTask :: "nat \<Rightarrow> taskRec \<Rightarrow> task \<times> nat" where
  \<comment> \<open>the body of the \<open>forEach\<close> of lines 246-302\<close>
  "loadTask taskIdCounter t =
     (let li0 = createTaskElement (orElseStr (r_text t) ''Untitled'') ''medium''
                  (orElseStr (r_deadline t) []);
          li1 = (if r_id t \<noteq> [] then li0\<lparr>taskId := Some (r_id t)\<rparr> else li0);
          li2 = li1\<lparr>isUrgent := Some (orElseStr (r_isUrgent t) ''false''),
                    isImportant := Some (orElseStr (r_isImportant t) ''false''),
                    elapsedMs := Some (orElseStr (r_elapsedMs t) ''0''),
                    taskDesc := orElseStr (r_desc t) []\<rparr>;
          li3 = (if r_etaMin t \<noteq> [] then li2\<lparr>etaMin := Some (r_etaMin t)\<rparr> else li2);
          li4 = (if r_completed t then li3\<lparr>completed := True, checked := True\<rparr> else li3);
          li5 = (if r_collapsed t then li4\<lparr>collapsed := True\<rparr> else li4);
          (li6, n) = attachTaskEventHandlers taskIdCounter li5;
          li7 = li6\<lparr>substeps := substeps li6 @ map loadSubstep (r_substeps t)\<rparr>
      in (updateSubstepSummary li7, n))"

fun loadEach :: "taskRec list \<Rightarrow> nat \<Rightarrow> task list \<Rightarrow> task list \<times> nat" where
  \<comment> \<open>the \<open>forEach\<close> of line 246, appending to \<open>listContainer\<close> (line 301)\<close>
  "loadEach [] n listContainer = (listContainer, n)"
| "loadEach (t # ts) n listContainer =
     (let (li, n') = loadTask n t in loadEach ts n' (listContainer @ [li]))"

definition loadTasks :: "taskRec list option \<Rightarrow> nat \<Rightarrow> task list \<Rightarrow> task list \<times> nat" where
  \<comment> \<open>lines 237-309; arguments: the stored value, \<open>taskIdCounter\<close>, the list as it is\<close>
  "loadTasks raw taskIdCounter listContainer =
     (case raw of
        None \<Rightarrow> (listContainer, taskIdCounter)
      | Some tasks \<Rightarrow> loadEach tasks taskIdCounter [])"

definition timerIsRunning :: "task \<Rightarrow> bool" where
  \<comment> \<open>the test of lines 529 and 555: \<open>dataset.timerRunning === 'true'\<close>\<close>
  "timerIsRunning li = (timerRunning li = Some ''true'')"

subsection \<open>Sorting by urgency\<close>

text \<open>
  The comparator of \<open>sortByUrgency\<close> computes with \<open>Infinity\<close> and can produce
  \<open>NaN\<close>: its results are of type \<open>jsnum\<close>.
\<close>

definition dayFromYear :: "int \<Rightarrow> int" where
  \<comment> \<open>ECMAScript's DayFromYear: the day number of 1 January of year \<open>y\<close>\<close>
  "dayFromYear y =
     365 * (y - 1970) + (y - 1969) div 4 - (y - 1901) div 100 + (y - 1601) div 400"

definition daysInMonth :: "int \<Rightarrow> nat \<Rightarrow> nat" where
  "daysInMonth y m =
     (if m = 2 then (if y mod 4 = 0 \<and> (y mod 100 \<noteq> 0 \<or> y mod 400 = 0) then 29 else 28)
      else if m = 4 \<or> m = 6 \<or> m = 9 \<or> m = 11 then 30 else 31)"

definition dateGetTime :: "string \<Rightarrow> int option" where
  \<comment> \<open>\<open>new Date(s).getTime()\<close> for the date-only form \<open>YYYY-MM-DD\<close> of ECMAScript's
     date-time string format, which is UTC midnight of that day and is what an
     \<open>input type="date"\<close> holds; \<open>None\<close> is NaN (an invalid date). Engines differ
     on other texts; they are NaN here.\<close>
  "dateGetTime s =
     (if length s = 10 \<and> s ! 4 = CHR ''-'' \<and> s ! 7 = CHR ''-''
         \<and> list_all isDigit (take 4 s) \<and> list_all isDigit (take 2 (drop 5 s))
         \<and> list_all isDigit (drop 8 s)
      then let y = int (digitsValue (take 4 s));
               m = digitsValue (take 2 (drop 5 s));
               d = digitsValue (drop 8 s)
           in if 1 \<le> m \<and> m \<le> 12 \<and> 1 \<le> d \<and> d \<le> daysInMonth y m
              then Some ((dayFromYear y + int (sum_list (map (daysInMonth y) [1..<m])) + int d - 1)
                         * 86400000)
              else None
      else None)"

definition orderWeight :: "string \<Rightarrow> int option" where
  \<comment> \<open>line 691: the table \<open>order\<close>; \<open>None\<close> is \<open>undefined\<close>\<close>
  "orderWeight p =
     (if p = ''high'' then Some 3 else if p = ''medium'' then Some 2
      else if p = ''low'' then Some 1 else None)"

definition deadlineTime :: "task \<Rightarrow> jsnum" where
  \<comment> \<open>lines 707-708\<close>
  "deadlineTime a =
     (if truthy (deadline a)
      then (case dateGetTime (the (deadline a)) of None \<Rightarrow> NaN | Some t \<Rightarrow> Finite t)
      else PosInfinity)"

definition urgencyCompare :: "task \<Rightarrow> task \<Rightarrow> jsnum" where
  \<comment> \<open>lines 697-711: the comparator\<close>
  "urgencyCompare a b =
     (let pa = orderWeight (orElse (priority a) ''medium'');
          pb = orderWeight (orElse (priority b) ''medium'')
      in if pb \<noteq> pa
         then (case (pb, pa) of (Some x, Some y) \<Rightarrow> Finite (x - y) | _ \<Rightarrow> NaN)
         else jsMinus (deadlineTime a) (deadlineTime b))"

definition positive :: "jsnum \<Rightarrow> bool" where
  \<comment> \<open>the comparator's result is greater than zero; NaN counts as 0\<close>
  "positive v = (case v of Finite n \<Rightarrow> n > 0 | PosInfinity \<Rightarrow> True | _ \<Rightarrow> False)"

fun insertSorted :: "('a \<Rightarrow> 'a \<Rightarrow> jsnum) \<Rightarrow> 'a \<Rightarrow> 'a list \<Rightarrow> 'a list" where
  "insertSorted cmp x [] = [x]"
| "insertSorted cmp x (y # ys) =
     (if positive (cmp x y) then y # insertSorted cmp x ys else x # y # ys)"

definition arraySort :: "('a \<Rightarrow> 'a \<Rightarrow> jsnum) \<Rightarrow> 'a list \<Rightarrow> 'a list" where
  \<comment> \<open>\<open>Array.prototype.sort(cmp)\<close>, which is the engine's: ECMAScript requires it to be
     stable and, for a consistent comparator, to order \<open>x\<close> before \<open>y\<close> when
     \<open>cmp(x, y) < 0\<close>. It is modelled by a stable insertion sort: each element, from
     the last to the first, goes in front of the first element it is not greater than.\<close>
  "arraySort cmp xs = foldr (insertSorted cmp) xs []"

definition sortByUrgency :: "task list \<Rightarrow> task list" where
  \<comment> \<open>lines 689-720: the children of \<open>#list-container\<close> are re-appended in sorted order\<close>
  "sortByUrgency listContainer = arraySort urgencyCompare listContainer"

text \<open>
  The order the sort is meant to produce, in the words of its documentation: higher
  priority weight first and, among equal weights, earlier deadline first with a missing
  deadline last.
\<close>

definition priorityWeight :: "task \<Rightarrow> int" where
  "priorityWeight a =
     (case orderWeight (orElse (priority a) ''medium'') of Some w \<Rightarrow> w | None \<Rightarrow> 0)"

definition deadlineMs :: "task \<Rightarrow> int option" where
  \<comment> \<open>the deadline as a time, \<open>None\<close> when the task has no deadline\<close>
  "deadlineMs a = (if truthy (deadline a) then dateGetTime (the (deadline a)) else None)"

definition urgencyBefore :: "task \<Rightarrow> task \<Rightarrow> bool" where
  \<comment> \<open>\<open>a\<close> may stand in front of \<open>b\<close>\<close>
  "urgencyBefore a b =
     (priorityWeight a > priorityWeight b
      \<or> (priorityWeight a = priorityWeight b
          \<and> (case (deadlineMs a, deadlineMs b) of
                (_, None) \<Rightarrow> True
              | (None, Some _) \<Rightarrow> False
              | (Some x, Some y) \<Rightarrow> x \<le> y)))"

definition sortable :: "task \<Rightarrow> bool" where
  \<comment> \<open>the priority is one of the table's (or absent) and the deadline, if any, is a
     valid date: what the page's controls produce\<close>
  "sortable a =
     (orderWeight (orElse (priority a) ''medium'') \<noteq> None
      \<and> (truthy (deadline a) \<longrightarrow> dateGetTime (the (deadline a)) \<noteq> None))"

subsection \<open>Deadline countdown\<close>

datatype countdown =
    NoCountdown               \<comment> \<open>class \<open>deadline-countdown\<close>, empty text\<close>
  | Overdue int int           \<comment> \<open>class \<open>overdue\<close>: days, hours\<close>
  | Critical int int          \<comment> \<open>class \<open>critical\<close>: hours, minutes\<close>
  | Urgent int int            \<comment> \<open>class \<open>urgent\<close>: days, hours\<close>
  | Warning int int           \<comment> \<open>class \<open>warning\<close>: days, hours\<close>
  | Safe int                  \<comment> \<open>class \<open>safe\<close>: days\<close>

definition updateDeadlineCountdown :: "string option \<Rightarrow> int \<Rightarrow> int \<Rightarrow> countdown" where
  \<comment> \<open>lines 734-789. Arguments: \<open>dataset.deadline\<close>; \<open>deadlineDate\<close>, the time in ms of
     \<open>new Date(deadline + 'T23:59:59')\<close> (local time, so it is given rather than
     computed); \<open>now\<close> in ms. \<open>totalHours\<close> is a quotient of doubles in the source and
     a rational here: the two agree on every comparison below.\<close>
  "updateDeadlineCountdown dl deadlineDate now =
     (if \<not> truthy dl then NoCountdown
      else let diffMs = deadlineDate - now
           in if diffMs < 0
              then Overdue (\<bar>diffMs\<bar> div (1000 * 60 * 60 * 24))
                           ((\<bar>diffMs\<bar> div (1000 * 60 * 60)) mod 24)
              else let days = diffMs div (1000 * 60 * 60 * 24);
                       hours = (diffMs div (1000 * 60 * 60)) mod 24;
                       minutes = (diffMs div (1000 * 60)) mod 60;
                       totalHours = (of_int diffMs :: rat) / (1000 * 60 * 60)
                   in if totalHours < 24 then Critical hours minutes
                      else if totalHours < 48 then Urgent days hours
                      else if totalHours < 168 then Warning days hours
                      else Safe days)"

definition countdownClass :: "countdown \<Rightarrow> string" where
  \<comment> \<open>the \<open>className\<close> written to \<open>.deadline-countdown\<close>\<close>
  "countdownClass c =
     (case c of
        NoCountdown \<Rightarrow> ''deadline-countdown''
      | Overdue _ _ \<Rightarrow> ''deadline-countdown overdue''
      | Critical _ _ \<Rightarrow> ''deadline-countdown critical''
      | Urgent _ _ \<Rightarrow> ''deadline-countdown urgent''
      | Warning _ _ \<Rightarrow> ''deadline-countdown warning''
      | Safe _ \<Rightarrow> ''deadline-countdown safe'')"

subsection \<open>Smart paste\<close>

text \<open>
  The clipboard can hold any text, so the parser's strings are lists of UTF-16 code
  units, each a natural number below \<open>65536\<close>. \<open>utf16\<close> gives the code units of a text
  of characters below U+0100.
\<close>

definition utf16 :: "string \<Rightarrow> nat list" where
  "utf16 s = map of_char s"

definition isWhiteSpaceUnit :: "nat \<Rightarrow> bool" where
  \<comment> \<open>ECMAScript's white space and line terminators, which \<open>trim\<close> strips and \<open>\s\<close>
     matches: TAB, LF, VT, FF, CR, space, U+00A0, U+1680, U+2000 to U+200A, U+2028,
     U+2029, U+202F, U+205F, U+3000, U+FEFF\<close>
  "isWhiteSpaceUnit c =
     ((9 \<le> c \<and> c \<le> 13) \<or> c = 0x20 \<or> c = 0xA0 \<or> c = 0x1680
      \<or> (0x2000 \<le> c \<and> c \<le> 0x200A) \<or> c = 0x2028 \<or> c = 0x2029 \<or> c = 0x202F
      \<or> c = 0x205F \<or> c = 0x3000 \<or> c = 0xFEFF)"

definition isDigitUnit :: "nat \<Rightarrow> bool" where
  \<comment> \<open>\<open>\d\<close>: the digits 0 to 9\<close>
  "isDigitUnit c = (0x30 \<le> c \<and> c \<le> 0x39)"

definition trimUnits :: "nat list \<Rightarrow> nat list" where
  \<comment> \<open>\<open>.trim()\<close>\<close>
  "trimUnits s = rev (dropWhile isWhiteSpaceUnit (rev (dropWhile isWhiteSpaceUnit s)))"

fun replaceCRLF :: "nat list \<Rightarrow> nat list" where
  \<comment> \<open>\<open>.replace(/\r\n/g, '\n')\<close>\<close>
  "replaceCRLF (a # b # cs) =
     (if a = 0x0D \<and> b = 0x0A then 0x0A # replaceCRLF cs
      else a # replaceCRLF (b # cs))"
| "replaceCRLF cs = cs"

fun splitLines :: "nat list \<Rightarrow> nat list list" where
  \<comment> \<open>\<open>.split('\n')\<close>\<close>
  "splitLines [] = [[]]"
| "splitLines (c # cs) =
     (if c = 0x0A then [] # splitLines cs
      else (case splitLines cs of [] \<Rightarrow> [[c]] | l # ls \<Rightarrow> (c # l) # ls))"

fun joinLines :: "nat list list \<Rightarrow> nat list" where
  \<comment> \<open>\<open>.join('\n')\<close>\<close>
  "joinLines [] = []"
| "joinLines [l] = l"
| "joinLines (l # ls) = l @ 0x0A # joinLines ls"

definition isBullet :: "nat \<Rightarrow> bool" where
  \<comment> \<open>the character class of line 1296, as the source file holds it. After \<open>-\<close> and
     \<open>*\<close> the file has the bytes C3 A2, E2 82 AC, C2 A2, which are the three characters
     U+00E2, U+20AC and U+00A2 (the bullet U+2022 would be the bytes E2 80 A2).\<close>
  "isBullet c = (c = 0x2D \<or> c = 0x2A \<or> c = 0xE2 \<or> c = 0x20AC \<or> c = 0xA2)"

definition listRegex :: "nat list \<Rightarrow> bool" where
  \<comment> \<open>\<open>listRegex.test(t)\<close> for \<open>/^\s*(\d+\.|[...])\s+/\<close>: optional white space, then
     digits and a dot, or one character of the class, then at least one white space\<close>
  "listRegex t =
     (let r = dropWhile isWhiteSpaceUnit t
      in case r of
           [] \<Rightarrow> False
         | c # rest \<Rightarrow>
             (isDigitUnit c \<and>
                (case dropWhile isDigitUnit r of
                   d # s # _ \<Rightarrow> d = 0x2E \<and> isWhiteSpaceUnit s
                 | _ \<Rightarrow> False))
             \<or> (isBullet c \<and> (case rest of s # _ \<Rightarrow> isWhiteSpaceUnit s | [] \<Rightarrow> False)))"

fun classifyLines ::
  "nat list list \<Rightarrow> nat list list \<times> nat list list \<Rightarrow> nat list list \<times> nat list list" where
  \<comment> \<open>the \<open>forEach\<close> of lines 1300-1308 on the pair (\<open>subSteps\<close>, \<open>descriptionLines\<close>)\<close>
  "classifyLines [] acc = acc"
| "classifyLines (line # rest) (subSteps, descriptionLines) =
     (let trimmed = trimUnits line
      in if trimmed = [] then classifyLines rest (subSteps, descriptionLines)
         else if listRegex trimmed
         then classifyLines rest (subSteps @ [trimmed], descriptionLines)
         else classifyLines rest (subSteps, descriptionLines @ [line]))"

definition smartParsePaste :: "nat list \<Rightarrow> nat list \<times> nat list list" where
  \<comment> \<open>lines 1291-1311; the result is (\<open>description\<close>, \<open>subSteps\<close>). The argument is a
     string, on which \<open>text || ''\<close> changes nothing.\<close>
  "smartParsePaste txt =
     (let raw = trimUnits (replaceCRLF txt)
      in if raw = [] then ([], [])
         else let lines = splitLines raw;
                  (subSteps, descriptionLines) = classifyLines lines ([], [])
              in (trimUnits (joinLines descriptionLines), subSteps))"

definition pasteTitle :: "nat list \<Rightarrow> nat list" where
  \<comment> \<open>lines 433 and 444: \<open>description.split('\n').filter(Boolean)[0] || 'New Task'\<close>\<close>
  "pasteTitle description =
     (case filter (\<lambda>l. l \<noteq> []) (splitLines description) of
        [] \<Rightarrow> utf16 ''New Task''
      | l # _ \<Rightarrow> if l = [] then utf16 ''New Task'' else l)"

subsection \<open>What a reload keeps\<close>

text \<open>
  The states the handlers leave an element in: an attribute that is present is not
  empty, a task has its id, its text and its three attributes set at creation, and a
  checkbox agrees with the class \<open>completed\<close>.
\<close>

definition settledSubstep :: "substep \<Rightarrow> bool" where
  "settledSubstep s =
     (s_substepId s \<noteq> Some [] \<and> s_etaMin s \<noteq> Some [] \<and> truthy (s_elapsedMs s)
      \<and> s_checked s = s_completed s)"

definition settledTask :: "task \<Rightarrow> bool" where
  "settledTask li =
     (truthy (taskId li) \<and> taskText li \<noteq> [] \<and> deadline li \<noteq> Some []
      \<and> etaMin li \<noteq> Some [] \<and> truthy (isUrgent li) \<and> truthy (isImportant li)
      \<and> truthy (elapsedMs li) \<and> checked li = completed li
      \<and> list_all settledSubstep (substeps li))"

definition rolledUp :: "task \<Rightarrow> bool" where
  \<comment> \<open>the task is completed exactly when it has sub-steps and all are completed\<close>
  "rolledUp li = (completed li = (substeps li \<noteq> [] \<and> list_all s_completed (substeps li)))"

definition reloadedSubstep :: "substep \<Rightarrow> substep" where
  \<comment> \<open>a sub-step with its timer state forgotten\<close>
  "reloadedSubstep s = s\<lparr>s_timerRunning := None, s_timerInterval := False\<rparr>"

definition reloaded :: "task \<Rightarrow> task" where
  \<comment> \<open>a task with what the stored record does not hold set as a new element has it:
     priority medium, no manual mark, no timer state\<close>
  "reloaded li =
     li\<lparr>priority := Some ''medium'', matrixTouched := Some ''false'', timerRunning := None,
        timerInterval := False, substeps := map reloadedSubstep (substeps li)\<rparr>"

subsection \<open>Example elements\<close>

definition reportTask :: task where
  \<comment> \<open>a task with two sub-steps, the second one done\<close>
  "reportTask =
     (createTaskElement ''Write report'' ''medium'' [])
       \<lparr>taskId := Some ''task-0'',
        substeps := [(createSubstepElement ''outline'')\<lparr>s_substepId := Some ''substep-1''\<rparr>,
                     (createSubstepElement ''draft'')
                       \<lparr>s_substepId := Some ''substep-2'', s_completed := True,
                        s_checked := True\<rparr>]\<rparr>"

definition rentTask :: task where
  \<comment> \<open>a task without sub-steps whose checkbox the user has ticked\<close>
  "rentTask =
     (createTaskElement ''Pay rent'' ''medium'' [])
       \<lparr>taskId := Some ''task-3'', completed := True, checked := True\<rparr>"

definition timedTask :: task where
  \<comment> \<open>a task whose timer was paused at 65000 ms\<close>
  "timedTask =
     (createTaskElement ''Read paper'' ''medium'' ''2026-01-05'')
       \<lparr>taskId := Some ''task-4'', elapsedMs := Some ''65000'',
        timerRunning := Some ''false''\<rparr>"

definition runningTask :: task where
  \<comment> \<open>the same task while its timer runs\<close>
  "runningTask = timedTask\<lparr>timerRunning := Some ''true'', timerInterval := True\<rparr>"

definition freshTask :: task where
  \<comment> \<open>a task as \<open>addTask\<close> builds it: created, then given its handlers and its id\<close>
  "freshTask = fst (attachTaskEventHandlers 5 (createTaskElement ''Call bank'' ''medium'' []))"

definition bankTask :: task where
  \<comment> \<open>a task with an estimate of 10 minutes and no deadline\<close>
  "bankTask =
     (createTaskElement ''Call bank'' ''medium'' [])
       \<lparr>taskId := Some ''task-5'', etaMin := Some ''10''\<rparr>"

definition highTask :: "string \<Rightarrow> string \<Rightarrow> task" where
  \<comment> \<open>a task of priority high with the given text and deadline\<close>
  "highTask txt dl = createTaskElement txt ''high'' dl"

section \<open>Properties\<close>

subsection \<open>Helper facts\<close>

lemma updateSubstepSummary_substeps [simp]:
  "substeps (updateSubstepSummary li) = substeps li"
  by (simp add: updateSubstepSummary_def Let_def)

lemma updateSubstepSummary_rollup:
  "substeps li \<noteq> [] \<Longrightarrow>
   completed (updateSubstepSummary li)
     = (length (filter s_completed (substeps li)) = length (substeps li))"
  by (auto simp: updateSubstepSummary_def Let_def)

lemma updateSubstepSummary_checked:
  "checked (updateSubstepSummary li) = completed (updateSubstepSummary li)"
  by (simp add: updateSubstepSummary_def Let_def)

lemma settle_cases:
  assumes "(i < length (substeps li)
            \<and> (li' = substepCheckboxClick i li \<or> li' = substepDeleteClick i li))
         \<or> (trim v \<noteq> [] \<and> li' = fst (addSubFromInput v n li))
         \<or> (steps \<noteq> [] \<and> li' = fst (addSubstepsToTask steps n li))"
  shows "\<exists>x. li' = updateSubstepSummary x"
  using assms
  by (auto simp: substepCheckboxClick_def substepDeleteClick_def addSubFromInput_def
      addSubstepsToTask_def Let_def split: prod.splits)

lemma showNat_0: "showNat 0 = ''0''"
  by (simp add: showNat.simps digitChar_def)

lemma showNat_10: "showNat 10 = ''10''"
  by (simp add: showNat.simps digitChar_def)

lemma showNat_5: "showNat 5 = ''5''"
  by (simp add: showNat.simps digitChar_def)

lemmas number_eval =
  parseInt_def trimStart_def isWhiteSpace_def isDigit_def digitsValue_def doubleOfNat_def
  String_number_def showDouble_def showNat.simps digitChar_def Let_def

lemma parseInt_10: "parseInt ''10'' = Finite 10"
  by (simp add: number_eval)

lemma parseInt_minus5: "parseInt ''-5'' = Finite (- 5)"
  by (simp add: number_eval)

lemma String_10: "String_number (Finite 10) = ''10''"
  by (simp add: number_eval)

lemma String_minus5: "String_number (Finite (- 5)) = ''-5''"
  by (simp add: number_eval)

lemma String_NaN: "String_number NaN = ''NaN''"
  by (simp add: String_number_def)

lemma parseInt_point5: "parseInt ''.5'' = NaN"
  by (simp add: number_eval)

text \<open>
  Above \<open>2^53\<close> the estimate that is stored is the text of the nearest double, not of
  the integer typed, and from \<open>10^21\<close> on it is in exponent notation.
\<close>

lemma String_parseInt_beyond_2_53:
  "String_number (parseInt ''9007199254740993'') = ''9007199254740992''"
  by (simp add: number_eval bitLength.simps shortestDecimal_def shortestAt_def upt_rec)

lemma String_parseInt_10_21:
  "String_number (parseInt ''1000000000000000000000'') = ''1e+21''"
  by (simp add: number_eval bitLength.simps shortestDecimal_def shortestAt_def upt_rec)

text \<open>
  A digit run whose value reaches \<open>2^1024\<close> is read as \<open>Infinity\<close>, and stored as that
  word.
\<close>

lemma bitLength_bounds:
  "0 < n \<Longrightarrow> 2 ^ (bitLength n - 1) \<le> n \<and> n < 2 ^ bitLength n"
proof (induction n rule: bitLength.induct)
  case (1 n)
  show ?case
  proof (cases "n div 2 = 0")
    case True
    with 1(2) have "n = 1" by (cases n) auto
    then show ?thesis by (simp add: bitLength.simps)
  next
    case False
    then have pos: "0 < n div 2" by simp
    from 1(1) [OF _ pos] 1(2)
    have IH: "2 ^ (bitLength (n div 2) - 1) \<le> n div 2 \<and> n div 2 < 2 ^ bitLength (n div 2)"
      by simp
    have b: "bitLength n = Suc (bitLength (n div 2))"
      using 1(2) by (subst bitLength.simps) simp
    have bp: "0 < bitLength (n div 2)"
      using pos by (subst bitLength.simps) simp
    then obtain k where k: "bitLength (n div 2) = Suc k" by (cases "bitLength (n div 2)") auto
    from IH k have "2 ^ k \<le> n div 2" and "n div 2 < 2 ^ Suc k" by simp_all
    then have "2 ^ Suc k \<le> n" and "n < 2 ^ Suc (Suc k)" by simp_all
    then show ?thesis by (simp add: b k)
  qed
qed

lemma doubleOfNat_overflow:
  assumes "2 ^ 1024 \<le> v"
  shows "doubleOfNat v = None"
proof -
  have big: "\<not> v < 9007199254740992"
  proof -
    have "(9007199254740992::nat) = 2 ^ 53" by simp
    also have "\<dots> \<le> 2 ^ 1024" by (rule power_increasing) simp_all
    finally show ?thesis using assms by simp
  qed
  have pos: "0 < v" using assms by (metis gr0I not_less_eq_eq power_eq_0_iff zero_neq_numeral le_zero_eq)
  define k where "k = bitLength v"
  from bitLength_bounds [OF pos] have lo: "2 ^ (k - 1) \<le> v" and hi: "v < 2 ^ k"
    by (simp_all add: k_def)
  have lt: "2 ^ 1024 < (2::nat) ^ k" using assms hi by (rule le_less_trans)
  have k: "1024 < k"
  proof (rule ccontr)
    assume "\<not> 1024 < k"
    then have "k \<le> 1024" by simp
    then have "(2::nat) ^ k \<le> 2 ^ 1024" by (rule power_increasing) simp
    with lt show False by (meson leD)
  qed
  define sh where "sh = k - 53"
  have ksh: "k - 1 = 52 + sh" using k by (simp add: sh_def)
  have "(2::nat) ^ (52 + sh) \<le> v" using lo unfolding ksh .
  then have "(2::nat) ^ 52 * 2 ^ sh \<le> v" by (simp only: power_add)
  then have q: "2 ^ 52 \<le> v div 2 ^ sh"
    by (simp add: less_eq_div_iff_mult_less_eq)
  define q' where "q' = (if 2 ^ (sh - 1) < v mod 2 ^ sh \<or> (v mod 2 ^ sh = 2 ^ (sh - 1) \<and> odd (v div 2 ^ sh))
                         then v div 2 ^ sh + 1 else v div 2 ^ sh)"
  have q52: "2 ^ 52 \<le> q'" using q by (simp add: q'_def)
  have a1: "(2::nat) ^ 52 * 2 ^ sh \<le> q' * 2 ^ sh" using q52 by (rule mult_le_mono1)
  have "1024 \<le> 52 + sh" using k by (simp add: sh_def)
  then have a2: "(2::nat) ^ 1024 \<le> 2 ^ (52 + sh)" by (rule power_increasing) simp
  have a3: "(2::nat) ^ (52 + sh) = 2 ^ 52 * 2 ^ sh" by (rule power_add)
  have d: "(2::nat) ^ 1024 \<le> q' * 2 ^ sh" by (rule le_trans [OF a2 [unfolded a3] a1])
  show ?thesis
    using big d by (simp add: doubleOfNat_def Let_def k_def [symmetric] sh_def [symmetric] q'_def)
qed

lemma parseInt_overflow:
  assumes "ds \<noteq> []" and "list_all isDigit ds" and "2 ^ 1024 \<le> digitsValue ds"
  shows "String_number (parseInt ds) = ''Infinity''"
proof -
  obtain c cs where ds: "ds = c # cs" using assms(1) by (cases ds) auto
  with assms(2) have c: "isDigit c" by simp
  then have "\<not> isWhiteSpace c" and "c \<noteq> CHR ''-''" and "c \<noteq> CHR ''+''"
    by (auto simp: isDigit_def isWhiteSpace_def Let_def)
  moreover have "takeWhile isDigit ds = ds"
    using assms(2) by (simp add: list_all_iff)
  moreover have "doubleOfNat (digitsValue ds) = None"
    using assms(3) by (rule doubleOfNat_overflow)
  ultimately have "parseInt ds = PosInfinity"
    by (simp add: parseInt_def trimStart_def ds Let_def)
  then show ?thesis by (simp add: String_number_def)
qed

lemma today_2026_01_05:
  "todayString \<lparr>fullYear = 2026, month = 0, date = 5\<rparr> = ''2026-01-05''"
  by (simp add: todayString_def padStart2_def showNat.simps digitChar_def)

lemma freshTask_eq:
  "freshTask = (createTaskElement ''Call bank'' ''medium'' [])\<lparr>taskId := Some ''task-5''\<rparr>"
  by (simp add: freshTask_def attachTaskEventHandlers_def updateSubstepSummary_def
      createTaskElement_def truthy_def showNat_5 Let_def)

lemma set_insertSorted: "set (insertSorted cmp x ys) = insert x (set ys)"
  by (induction ys) auto

lemma mset_insertSorted: "mset (insertSorted cmp x ys) = add_mset x (mset ys)"
  by (induction ys) auto

lemma mset_arraySort: "mset (arraySort cmp xs) = mset xs"
  by (induction xs) (simp_all add: arraySort_def mset_insertSorted)

lemma set_arraySort: "set (arraySort cmp xs) = set xs"
  using mset_arraySort [of cmp xs] by (metis set_mset_mset)

text \<open>
  Insertion keeps a list sorted for any relation \<open>le\<close> that is total and transitive on
  the elements at hand and that the comparator decides.
\<close>

lemma insertSorted_sorted:
  assumes tot: "\<And>a b. a \<in> A \<Longrightarrow> b \<in> A \<Longrightarrow> \<not> le a b \<Longrightarrow> le b a"
    and trans: "\<And>a b c. a \<in> A \<Longrightarrow> b \<in> A \<Longrightarrow> c \<in> A \<Longrightarrow> le a b \<Longrightarrow> le b c \<Longrightarrow> le a c"
    and link: "\<And>a b. a \<in> A \<Longrightarrow> b \<in> A \<Longrightarrow> (\<not> positive (cmp a b)) = le a b"
    and x: "x \<in> A" and ys: "set ys \<subseteq> A" and sorted: "sorted_wrt le ys"
  shows "sorted_wrt le (insertSorted cmp x ys)"
  using ys sorted
proof (induction ys)
  case Nil
  then show ?case by simp
next
  case (Cons y ys)
  from Cons.prems have y: "y \<in> A" and sub: "set ys \<subseteq> A" by auto
  show ?case
  proof (cases "positive (cmp x y)")
    case True
    then have yx: "le y x" using link [OF x y] tot [OF x y] by blast
    have IH: "sorted_wrt le (insertSorted cmp x ys)"
      using Cons.IH sub Cons.prems(2) by simp
    have "\<forall>z \<in> set (insertSorted cmp x ys). le y z"
      using yx Cons.prems(2) by (auto simp: set_insertSorted)
    with True IH show ?thesis by simp
  next
    case False
    then have xy: "le x y" using link [OF x y] by blast
    have "\<forall>z \<in> set ys. le x z"
    proof
      fix z assume z: "z \<in> set ys"
      then have "le y z" using Cons.prems(2) by simp
      moreover have "z \<in> A" using z sub by blast
      ultimately show "le x z" using trans [OF x y _ xy] by blast
    qed
    with False xy Cons.prems(2) show ?thesis by simp
  qed
qed

lemma arraySort_sorted:
  assumes tot: "\<And>a b. a \<in> A \<Longrightarrow> b \<in> A \<Longrightarrow> \<not> le a b \<Longrightarrow> le b a"
    and trans: "\<And>a b c. a \<in> A \<Longrightarrow> b \<in> A \<Longrightarrow> c \<in> A \<Longrightarrow> le a b \<Longrightarrow> le b c \<Longrightarrow> le a c"
    and link: "\<And>a b. a \<in> A \<Longrightarrow> b \<in> A \<Longrightarrow> (\<not> positive (cmp a b)) = le a b"
    and xs: "set xs \<subseteq> A"
  shows "sorted_wrt le (arraySort cmp xs)"
  using xs
proof (induction xs)
  case Nil
  then show ?case by (simp add: arraySort_def)
next
  case (Cons x xs)
  then have x: "x \<in> A" and sub: "set xs \<subseteq> A" by auto
  have rest: "sorted_wrt le (arraySort cmp xs)" using Cons.IH sub by simp
  have inA: "set (arraySort cmp xs) \<subseteq> A" using sub by (simp add: set_arraySort)
  have "sorted_wrt le (insertSorted cmp x (arraySort cmp xs))"
    by (rule insertSorted_sorted [where A = A, OF tot trans link x inA rest])
  then show ?case by (simp add: arraySort_def)
qed

lemma urgencyBefore_total: "\<not> urgencyBefore a b \<Longrightarrow> urgencyBefore b a"
  by (auto simp: urgencyBefore_def split: option.splits)

lemma urgencyBefore_trans: "urgencyBefore a b \<Longrightarrow> urgencyBefore b c \<Longrightarrow> urgencyBefore a c"
  by (auto simp: urgencyBefore_def split: option.splits)

lemma compare_agrees:
  "sortable a \<Longrightarrow> sortable b \<Longrightarrow> (\<not> positive (urgencyCompare a b)) = urgencyBefore a b"
  by (auto simp: sortable_def urgencyCompare_def urgencyBefore_def priorityWeight_def
      deadlineMs_def deadlineTime_def positive_def Let_def split: option.splits)

lemma getTime_2026_01_01: "dateGetTime ''2026-01-01'' = Some 1767225600000"
  by code_simp

lemma getTime_2026_01_05: "dateGetTime ''2026-01-05'' = Some 1767571200000"
  by code_simp

lemma high_tie_break:
  assumes "priority a = Some ''high''" "priority b = Some ''high''"
    "deadline a = Some ''2026-01-01''" "deadline b = Some ''2026-01-05''"
  shows "sortByUrgency [a, b] = [a, b] \<and> sortByUrgency [b, a] = [a, b]"
  using assms
  by (simp add: sortByUrgency_def arraySort_def urgencyCompare_def orElse_def
      orderWeight_def deadlineTime_def truthy_def getTime_2026_01_01 getTime_2026_01_05
      positive_def Let_def)

lemma hours_lt: "((of_int d :: rat) / (1000 * 60 * 60) < of_int k) = (d < k * 3600000)"
proof -
  have "((of_int d :: rat) / 3600000 < of_int k) = ((of_int d :: rat) < of_int k * 3600000)"
    by (simp add: pos_divide_less_eq)
  also have "\<dots> = ((of_int d :: rat) < of_int (k * 3600000))" by simp
  also have "\<dots> = (d < k * 3600000)" by (simp only: of_int_less_iff)
  finally show ?thesis by simp
qed

lemma hours_lt24: "((of_int d :: rat) / (1000 * 60 * 60) < 24) = (d < 86400000)"
  using hours_lt [of d 24] by simp

lemma hours_lt48: "((of_int d :: rat) / (1000 * 60 * 60) < 48) = (d < 172800000)"
  using hours_lt [of d 48] by simp

lemma hours_lt168: "((of_int d :: rat) / (1000 * 60 * 60) < 168) = (d < 604800000)"
  using hours_lt [of d 168] by simp

lemma trim_digits [simp]: "trim ''10'' = ''10''" "trim ''-5'' = ''-5''" "trim ''.5'' = ''.5''"
  by (simp_all add: trim_def isWhiteSpace_def)

subsection \<open>Sub-step roll-up\<close>

text \<open>
  C1. After a sub-step is toggled (the click on its checkbox), removed, or added (from
  the input box or by a paste), a task that then has sub-steps is completed exactly when
  all of them are: the number of completed sub-steps equals their number. Every one of
  these handlers ends with the recomputation, inside the handler itself, and the
  task's checkbox shows the same value.
\<close>

theorem substep_rollup:
  assumes "(i < length (substeps li)
            \<and> (li' = substepCheckboxClick i li \<or> li' = substepDeleteClick i li))
         \<or> (trim v \<noteq> [] \<and> li' = fst (addSubFromInput v n li))
         \<or> (steps \<noteq> [] \<and> li' = fst (addSubstepsToTask steps n li))"
    and "substeps li' \<noteq> []"
  shows "completed li' = (length (filter s_completed (substeps li')) = length (substeps li'))
         \<and> checked li' = completed li'"
proof -
  from assms(1) obtain x where x: "li' = updateSubstepSummary x"
    using settle_cases by blast
  with assms(2) have "substeps x \<noteq> []" by simp
  then show ?thesis
    unfolding x using updateSubstepSummary_rollup [of x] updateSubstepSummary_checked [of x]
    by simp
qed

theorem substep_rollup_witness:
  "substeps (substepCheckboxClick 0 reportTask) \<noteq> []
   \<and> length (filter s_completed (substeps (substepCheckboxClick 0 reportTask))) = 2
   \<and> completed (substepCheckboxClick 0 reportTask)
   \<and> \<not> completed reportTask"
proof -
  have sub: "substeps (substepCheckboxClick 0 reportTask)
      = [(createSubstepElement ''outline'')
           \<lparr>s_substepId := Some ''substep-1'', s_checked := True, s_completed := True\<rparr>,
         (createSubstepElement ''draft'')
           \<lparr>s_substepId := Some ''substep-2'', s_completed := True, s_checked := True\<rparr>]"
    by (simp add: substepCheckboxClick_def reportTask_def createTaskElement_def
        createSubstepElement_def Let_def)
  have h1: "(0 < length (substeps reportTask)
            \<and> (substepCheckboxClick 0 reportTask = substepCheckboxClick 0 reportTask
               \<or> substepCheckboxClick 0 reportTask = substepDeleteClick 0 reportTask))
         \<or> (trim [] \<noteq> [] \<and> substepCheckboxClick 0 reportTask = fst (addSubFromInput [] 0 reportTask))
         \<or> ([] \<noteq> [] \<and> substepCheckboxClick 0 reportTask = fst (addSubstepsToTask [] 0 reportTask))"
    by (simp add: reportTask_def createTaskElement_def)
  have h2: "substeps (substepCheckboxClick 0 reportTask) \<noteq> []"
    by (simp add: sub)
  have n: "length (filter s_completed (substeps (substepCheckboxClick 0 reportTask))) = 2"
    by (simp add: sub createSubstepElement_def)
  have old: "\<not> completed reportTask"
    by (simp add: reportTask_def createTaskElement_def)
  from substep_rollup [OF h1 h2] n old h2 show ?thesis
    by (simp add: sub)
qed

text \<open>
  C2 (the code departs from it). The recomputation does not leave a task without
  sub-steps alone: its last branch clears the class and the checkbox whenever the
  completed sub-steps are not all of a non-empty list. A ticked task without sub-steps
  comes out unticked, and so does one that is read back from storage, because
  \<open>loadTasks\<close> restores the flag and then runs the recomputation twice.
\<close>

theorem recompute_clears_task_without_substeps:
  "completed rentTask \<and> substeps rentTask = []
   \<and> \<not> completed (updateSubstepSummary rentTask)
   \<and> \<not> checked (updateSubstepSummary rentTask)
   \<and> r_completed (serializeTask rentTask)
   \<and> map completed (fst (loadTasks (Some (saveTasks [rentTask])) 0 [])) = [False]"
  by (simp add: rentTask_def createTaskElement_def updateSubstepSummary_def serializeTask_def
      saveTasks_def loadTasks_def loadTask_def attachTaskEventHandlers_def orElse_def
      orElseStr_def truthy_def Let_def)

subsection \<open>Classification\<close>

text \<open>
  C4 (the code departs from it). The rule of the claim is written down, in
  \<open>autoClassifyTask\<close>, but no handler applies it: nothing in script.js calls that
  function, and \<open>applyDeadline\<close> ends in the comment that announces the recomputation.
  A new task that is given an estimate of 10 minutes and no deadline, and that the user
  never classifies, keeps the flags of its creation, not urgent and not important, and
  the matrix lists it under Eliminate; the rule would make it urgent and not important,
  under Delegate. With an estimate of 90 minutes the rule would make the task important
  and not urgent, and with a deadline of today urgent; the task keeps its flags.
\<close>

theorem classifier_never_applied:
  "etaMin (etaInputChange ''10'' freshTask) = Some ''10''
   \<and> deadline (etaInputChange ''10'' freshTask) = None
   \<and> matrixTouched (etaInputChange ''10'' freshTask) = Some ''false''
   \<and> isUrgent (etaInputChange ''10'' freshTask) = Some ''false''
   \<and> isImportant (etaInputChange ''10'' freshTask) = Some ''false''
   \<and> matrixTargetCell (etaInputChange ''10'' freshTask) = ''matrix-eliminate''
   \<and> isUrgent (autoClassifyTask \<lparr>fullYear = 2026, month = 0, date = 5\<rparr>
                  (etaInputChange ''10'' freshTask)) = Some ''true''
   \<and> isImportant (autoClassifyTask \<lparr>fullYear = 2026, month = 0, date = 5\<rparr>
                  (etaInputChange ''10'' freshTask)) = Some ''false''
   \<and> matrixTargetCell (autoClassifyTask \<lparr>fullYear = 2026, month = 0, date = 5\<rparr>
                  (etaInputChange ''10'' freshTask)) = ''matrix-delegate''
   \<and> isUrgent (etaInputChange ''90'' freshTask) = Some ''false''
   \<and> isImportant (etaInputChange ''90'' freshTask) = Some ''false''
   \<and> isUrgent (autoClassifyTask \<lparr>fullYear = 2026, month = 0, date = 5\<rparr>
                  (etaInputChange ''90'' freshTask)) = Some ''false''
   \<and> isImportant (autoClassifyTask \<lparr>fullYear = 2026, month = 0, date = 5\<rparr>
                  (etaInputChange ''90'' freshTask)) = Some ''true''
   \<and> deadline (applyDeadline ''2026-01-05'' freshTask) = Some ''2026-01-05''
   \<and> isUrgent (applyDeadline ''2026-01-05'' freshTask) = Some ''false''
   \<and> isUrgent (autoClassifyTask \<lparr>fullYear = 2026, month = 0, date = 5\<rparr>
                  (applyDeadline ''2026-01-05'' freshTask)) = Some ''true''
   \<and> isUrgent (autoClassifyTask \<lparr>fullYear = 2026, month = 0, date = 6\<rparr>
                  (applyDeadline ''2026-01-05'' freshTask)) = Some ''false''"
proof -
  have t: "etaInputChange ''10'' freshTask = bankTask"
    by (simp add: etaInputChange_def parseInt_10 String_10 freshTask_eq bankTask_def
        createTaskElement_def)
  have a: "etaMin bankTask = Some ''10'' \<and> deadline bankTask = None
      \<and> matrixTouched bankTask = Some ''false'' \<and> isUrgent bankTask = Some ''false''
      \<and> isImportant bankTask = Some ''false''
      \<and> matrixTargetCell bankTask = ''matrix-eliminate''"
    by (simp add: bankTask_def createTaskElement_def matrixTargetCell_def)
  have e: "estimateMinutes bankTask = Some (Finite 10)"
    by (simp add: estimateMinutes_def bankTask_def createTaskElement_def truthy_def parseInt_10)
  have c: "autoClassifyTask \<lparr>fullYear = 2026, month = 0, date = 5\<rparr> bankTask
             = bankTask\<lparr>isImportant := Some ''false'', isUrgent := Some ''true''\<rparr>"
    using a by (simp add: autoClassifyTask_def e getTaskCategory_def String_bool_def
        orElse_def Let_def)
  have b: "isUrgent (autoClassifyTask \<lparr>fullYear = 2026, month = 0, date = 5\<rparr> bankTask)
             = Some ''true''
      \<and> isImportant (autoClassifyTask \<lparr>fullYear = 2026, month = 0, date = 5\<rparr> bankTask)
             = Some ''false''
      \<and> matrixTargetCell (autoClassifyTask \<lparr>fullYear = 2026, month = 0, date = 5\<rparr> bankTask)
             = ''matrix-delegate''"
    unfolding c by (simp add: matrixTargetCell_def)
  have d: "deadline (applyDeadline ''2026-01-05'' freshTask) = Some ''2026-01-05''
      \<and> isUrgent (applyDeadline ''2026-01-05'' freshTask) = Some ''false''"
    by (simp add: applyDeadline_def freshTask_eq createTaskElement_def)
  have n: "estimateMinutes (applyDeadline ''2026-01-05'' freshTask) = None"
    by (simp add: estimateMinutes_def applyDeadline_def freshTask_eq createTaskElement_def
        truthy_def)
  have today6: "todayString \<lparr>fullYear = 2026, month = 0, date = 6\<rparr> = ''2026-01-06''"
    by (simp add: todayString_def padStart2_def showNat.simps digitChar_def)
  have f: "isUrgent (autoClassifyTask \<lparr>fullYear = 2026, month = 0, date = 5\<rparr>
                  (applyDeadline ''2026-01-05'' freshTask)) = Some ''true''"
    using d by (simp add: autoClassifyTask_def n today_2026_01_05 String_bool_def orElse_def
        Let_def)
  have g: "isUrgent (autoClassifyTask \<lparr>fullYear = 2026, month = 0, date = 6\<rparr>
                  (applyDeadline ''2026-01-05'' freshTask)) = Some ''false''"
    using d by (simp add: autoClassifyTask_def n today6 String_bool_def orElse_def Let_def)
  have p90: "parseInt ''90'' = Finite 90" and s90: "String_number (Finite 90) = ''90''"
    by (simp_all add: number_eval)
  have t90: "etaInputChange ''90'' freshTask = freshTask\<lparr>etaMin := Some ''90''\<rparr>"
    by (simp add: etaInputChange_def trim_def isWhiteSpace_def p90 s90)
  have fr: "isUrgent freshTask = Some ''false'' \<and> isImportant freshTask = Some ''false''
      \<and> deadline freshTask = None"
    by (simp add: freshTask_eq createTaskElement_def)
  have e90: "estimateMinutes (freshTask\<lparr>etaMin := Some ''90''\<rparr>) = Some (Finite 90)"
    by (simp add: estimateMinutes_def truthy_def p90)
  have h: "isUrgent (etaInputChange ''90'' freshTask) = Some ''false''
      \<and> isImportant (etaInputChange ''90'' freshTask) = Some ''false''
      \<and> isUrgent (autoClassifyTask \<lparr>fullYear = 2026, month = 0, date = 5\<rparr>
                  (etaInputChange ''90'' freshTask)) = Some ''false''
      \<and> isImportant (autoClassifyTask \<lparr>fullYear = 2026, month = 0, date = 5\<rparr>
                  (etaInputChange ''90'' freshTask)) = Some ''true''"
    unfolding t90 using fr
    by (simp add: autoClassifyTask_def e90 getTaskCategory_def String_bool_def orElse_def
        Let_def)
  from a b d f g h show ?thesis unfolding t by blast
qed

text \<open>
  C6. A change of the estimate leaves the urgent and important flags, and the mark of a
  manual choice, as they were. This holds for every task, so in particular for one whose
  flags the user set with the Urgent or Important toggle (which also sets the mark
  \<open>matrixTouched\<close>) or by dropping the task on a matrix cell (which sets both flags):
  the estimate handler never derives the flags.
\<close>

theorem estimate_change_keeps_flags:
  "isUrgent (etaInputChange v li) = isUrgent li
   \<and> isImportant (etaInputChange v li) = isImportant li
   \<and> matrixTouched (etaInputChange v li) = matrixTouched li"
  by (simp add: etaInputChange_def Let_def)

theorem estimate_change_keeps_flags_witness:
  "matrixTouched (urgentToggleChange True reportTask) = Some ''true''
   \<and> isUrgent (etaInputChange ''10'' (urgentToggleChange True reportTask)) = Some ''true''
   \<and> isImportant (etaInputChange ''10'' (urgentToggleChange True reportTask)) = Some ''false''
   \<and> etaMin (etaInputChange ''10'' (urgentToggleChange True reportTask)) = Some ''10''
   \<and> isUrgent (etaInputChange ''10'' (matrixDrop ''schedule'' reportTask)) = Some ''false''
   \<and> isImportant (etaInputChange ''10'' (matrixDrop ''schedule'' reportTask)) = Some ''true''"
proof -
  have e: "etaMin (etaInputChange ''10'' (urgentToggleChange True reportTask)) = Some ''10''"
    by (simp add: etaInputChange_def parseInt_10 String_10)
  show ?thesis
    using estimate_change_keeps_flags [of "''10''" "urgentToggleChange True reportTask"]
      estimate_change_keeps_flags [of "''10''" "matrixDrop ''schedule'' reportTask"] e
    by (simp add: urgentToggleChange_def matrixDrop_def reportTask_def createTaskElement_def)
qed

subsection \<open>Sorting by urgency\<close>

text \<open>
  C5. Sorting by urgency puts the tasks in the order of \<open>urgencyBefore\<close>: priority
  weight high = 3, medium = 2, low = 1, larger weight first, and among equal weights the
  earlier deadline first, a task without a deadline after every task that has one. The
  sorted list holds the same tasks. Two tasks of priority high with the deadlines
  2026-01-01 and 2026-01-05 come out with the 2026-01-01 task first, in whichever order
  they went in. The tasks are those the page can hold: a priority of the table (or
  none) and a deadline that is absent or a valid date.
\<close>

theorem sortByUrgency_order:
  assumes "\<forall>a \<in> set listContainer. sortable a"
  shows "sorted_wrt urgencyBefore (sortByUrgency listContainer)
         \<and> mset (sortByUrgency listContainer) = mset listContainer
         \<and> orderWeight ''high'' = Some 3 \<and> orderWeight ''medium'' = Some 2
         \<and> orderWeight ''low'' = Some 1
         \<and> (priority a = Some ''high'' \<and> priority b = Some ''high''
              \<and> deadline a = Some ''2026-01-01'' \<and> deadline b = Some ''2026-01-05''
            \<longrightarrow> sortByUrgency [a, b] = [a, b] \<and> sortByUrgency [b, a] = [a, b])"
proof -
  have "sorted_wrt urgencyBefore (arraySort urgencyCompare listContainer)"
  proof (rule arraySort_sorted [where A = "{a. sortable a}"])
    show "set listContainer \<subseteq> {a. sortable a}" using assms by blast
  qed (auto intro: urgencyBefore_total urgencyBefore_trans simp: compare_agrees)
  then have s: "sorted_wrt urgencyBefore (sortByUrgency listContainer)
         \<and> mset (sortByUrgency listContainer) = mset listContainer"
    by (simp add: sortByUrgency_def mset_arraySort)
  have w: "orderWeight ''high'' = Some 3 \<and> orderWeight ''medium'' = Some 2
         \<and> orderWeight ''low'' = Some 1"
    by (simp add: orderWeight_def)
  from s w high_tie_break [of a b] show ?thesis by blast
qed

theorem sortByUrgency_order_witness:
  "sortable (createTaskElement ''Tidy desk'' ''low'' ''2026-01-01'')
   \<and> sortable (createTaskElement ''Plan trip'' ''medium'' [])
   \<and> sortable (highTask ''Tax return'' ''2026-01-05'')
   \<and> sortable (highTask ''Book flight'' ''2026-01-01'')
   \<and> sortByUrgency [createTaskElement ''Tidy desk'' ''low'' ''2026-01-01'',
                     createTaskElement ''Plan trip'' ''medium'' [],
                     highTask ''Tax return'' ''2026-01-05'',
                     highTask ''Book flight'' ''2026-01-01'']
       = [highTask ''Book flight'' ''2026-01-01'',
          highTask ''Tax return'' ''2026-01-05'',
          createTaskElement ''Plan trip'' ''medium'' [],
          createTaskElement ''Tidy desk'' ''low'' ''2026-01-01'']
   \<and> sorted_wrt urgencyBefore
         (sortByUrgency [createTaskElement ''Tidy desk'' ''low'' ''2026-01-01'',
                         createTaskElement ''Plan trip'' ''medium'' [],
                         highTask ''Tax return'' ''2026-01-05'',
                         highTask ''Book flight'' ''2026-01-01''])"
proof -
  have s1: "sortable (createTaskElement ''Tidy desk'' ''low'' ''2026-01-01'')"
    by (simp add: sortable_def createTaskElement_def orElse_def orderWeight_def truthy_def
        getTime_2026_01_01)
  have s2: "sortable (createTaskElement ''Plan trip'' ''medium'' [])"
    by (simp add: sortable_def createTaskElement_def orElse_def orderWeight_def truthy_def)
  have s3: "sortable (highTask ''Tax return'' ''2026-01-05'')"
    by (simp add: sortable_def highTask_def createTaskElement_def orElse_def orderWeight_def
        truthy_def getTime_2026_01_05)
  have s4: "sortable (highTask ''Book flight'' ''2026-01-01'')"
    by (simp add: sortable_def highTask_def createTaskElement_def orElse_def orderWeight_def
        truthy_def getTime_2026_01_01)
  have h: "\<forall>a \<in> set [createTaskElement ''Tidy desk'' ''low'' ''2026-01-01'',
                     createTaskElement ''Plan trip'' ''medium'' [],
                     highTask ''Tax return'' ''2026-01-05'',
                     highTask ''Book flight'' ''2026-01-01'']. sortable a"
    using s1 s2 s3 s4 by simp
  have r: "sortByUrgency [createTaskElement ''Tidy desk'' ''low'' ''2026-01-01'',
                     createTaskElement ''Plan trip'' ''medium'' [],
                     highTask ''Tax return'' ''2026-01-05'',
                     highTask ''Book flight'' ''2026-01-01'']
       = [highTask ''Book flight'' ''2026-01-01'',
          highTask ''Tax return'' ''2026-01-05'',
          createTaskElement ''Plan trip'' ''medium'' [],
          createTaskElement ''Tidy desk'' ''low'' ''2026-01-01'']"
    by (simp add: sortByUrgency_def arraySort_def urgencyCompare_def orElse_def
        orderWeight_def deadlineTime_def truthy_def getTime_2026_01_01 getTime_2026_01_05
        positive_def Let_def highTask_def createTaskElement_def)
  from sortByUrgency_order [OF h] s1 s2 s3 s4 r show ?thesis by blast
qed

subsection \<open>Deadline countdown\<close>

text \<open>
  C7. For a task with a deadline, whose end-of-day boundary is \<open>deadlineDate\<close>: while
  \<open>now\<close> is not past the boundary, the countdown is critical exactly when fewer than 24
  hours remain, urgent from 24 hours up to but not including 48, warning from 48 up to
  but not including 168, and safe from 168 hours on. A boundary exactly 24 hours away
  is urgent and one exactly 168 hours away is safe. Once \<open>now\<close> is past the boundary the
  countdown is overdue and shows the whole days since the boundary and the whole hours
  beyond those days.
\<close>

theorem countdown_buckets:
  assumes dl: "truthy dl"
  shows "(now \<le> deadlineDate \<longrightarrow>
            (let hoursRemaining = (of_int (deadlineDate - now) :: rat) / 3600000;
                 cls = countdownClass (updateDeadlineCountdown dl deadlineDate now)
             in (cls = ''deadline-countdown critical'') = (hoursRemaining < 24)
              \<and> (cls = ''deadline-countdown urgent'') = (24 \<le> hoursRemaining \<and> hoursRemaining < 48)
              \<and> (cls = ''deadline-countdown warning'') = (48 \<le> hoursRemaining \<and> hoursRemaining < 168)
              \<and> (cls = ''deadline-countdown safe'') = (168 \<le> hoursRemaining)))
       \<and> countdownClass (updateDeadlineCountdown dl (now + 24 * 3600000) now)
            = ''deadline-countdown urgent''
       \<and> countdownClass (updateDeadlineCountdown dl (now + 168 * 3600000) now)
            = ''deadline-countdown safe''
       \<and> (deadlineDate < now \<longrightarrow>
            updateDeadlineCountdown dl deadlineDate now
              = Overdue ((now - deadlineDate) div 86400000)
                        (((now - deadlineDate) div 3600000) mod 24))"
proof -
  have a: "now \<le> deadlineDate \<longrightarrow>
            (let hoursRemaining = (of_int (deadlineDate - now) :: rat) / 3600000;
                 cls = countdownClass (updateDeadlineCountdown dl deadlineDate now)
             in (cls = ''deadline-countdown critical'') = (hoursRemaining < 24)
              \<and> (cls = ''deadline-countdown urgent'') = (24 \<le> hoursRemaining \<and> hoursRemaining < 48)
              \<and> (cls = ''deadline-countdown warning'') = (48 \<le> hoursRemaining \<and> hoursRemaining < 168)
              \<and> (cls = ''deadline-countdown safe'') = (168 \<le> hoursRemaining))"
    using dl hours_lt24 [of "deadlineDate - now"] hours_lt48 [of "deadlineDate - now"]
      hours_lt168 [of "deadlineDate - now"]
    by (auto simp: updateDeadlineCountdown_def countdownClass_def Let_def not_less)
  have b: "countdownClass (updateDeadlineCountdown dl (now + 24 * 3600000) now)
            = ''deadline-countdown urgent''"
    using dl by (simp add: updateDeadlineCountdown_def countdownClass_def Let_def)
  have c: "countdownClass (updateDeadlineCountdown dl (now + 168 * 3600000) now)
            = ''deadline-countdown safe''"
    using dl by (simp add: updateDeadlineCountdown_def countdownClass_def Let_def)
  have d: "deadlineDate < now \<longrightarrow>
            updateDeadlineCountdown dl deadlineDate now
              = Overdue ((now - deadlineDate) div 86400000)
                        (((now - deadlineDate) div 3600000) mod 24)"
    using dl by (simp add: updateDeadlineCountdown_def Let_def abs_if)
  from a b c d show ?thesis by blast
qed

theorem countdown_buckets_witness:
  "truthy (Some ''2026-01-05'')
   \<and> updateDeadlineCountdown (Some ''2026-01-05'') 1767657599000 1767571199000 = Urgent 1 0
   \<and> updateDeadlineCountdown (Some ''2026-01-05'') 1767657599000 1767571199001 = Critical 23 59
   \<and> updateDeadlineCountdown (Some ''2026-01-05'') 1767657599000 1767052799000 = Safe 7
   \<and> updateDeadlineCountdown (Some ''2026-01-05'') 1767657599000 1767052799001 = Warning 6 23
   \<and> updateDeadlineCountdown (Some ''2026-01-05'') 1767657599000 1767751199000 = Overdue 1 2"
proof -
  have t: "truthy (Some ''2026-01-05'')" by (simp add: truthy_def)
  have o: "updateDeadlineCountdown (Some ''2026-01-05'') 1767657599000 1767751199000
             = Overdue 1 2"
    using countdown_buckets [OF t, of 1767751199000 1767657599000] by simp
  have rest: "updateDeadlineCountdown (Some ''2026-01-05'') 1767657599000 1767571199000 = Urgent 1 0
   \<and> updateDeadlineCountdown (Some ''2026-01-05'') 1767657599000 1767571199001 = Critical 23 59
   \<and> updateDeadlineCountdown (Some ''2026-01-05'') 1767657599000 1767052799000 = Safe 7
   \<and> updateDeadlineCountdown (Some ''2026-01-05'') 1767657599000 1767052799001 = Warning 6 23"
    by (simp add: updateDeadlineCountdown_def truthy_def Let_def)
  from t o rest show ?thesis by blast
qed

subsection \<open>Estimate input\<close>

text \<open>
  C9 (the code departs from it). Both estimate fields are number inputs with a minimum of
  0, and the badge of a task guards against a value that is not a number, but the two
  handlers store whatever \<open>parseInt\<close> returns. The input \<open>-5\<close>, which a number field
  holds, is stored as \<open>-5\<close> for a task and for a sub-step, and the input \<open>.5\<close> is stored
  as \<open>NaN\<close>; neither is a non-negative integer and neither clears the field.
\<close>

theorem estimate_stored_unchecked:
  "parseInt (trim ''-5'') = Finite (- 5)
   \<and> etaMin (etaInputChange ''-5'' freshTask) = Some ''-5''
   \<and> s_etaMin (substepEtaInputChange ''-5'' (createSubstepElement ''outline'')) = Some ''-5''
   \<and> parseInt (trim ''.5'') = NaN
   \<and> etaMin (etaInputChange ''.5'' freshTask) = Some ''NaN''
   \<and> s_etaMin (substepEtaInputChange ''.5'' (createSubstepElement ''outline'')) = Some ''NaN''"
  by (simp add: etaInputChange_def substepEtaInputChange_def parseInt_minus5 String_minus5
      parseInt_point5 String_NaN)

subsection \<open>Completing a task\<close>

text \<open>
  C10. A click that ticks the checkbox of the task at position \<open>i\<close> marks it completed
  and moves it to the end of the list; the tasks before it and after it keep their
  order. A click that unticks the checkbox changes that task in place: the list keeps
  its order.
\<close>

theorem checkbox_click_order:
  assumes "i < length listContainer"
  shows "(\<not> checked (listContainer ! i) \<longrightarrow>
            taskCheckboxClick i listContainer
              = take i listContainer @ drop (Suc i) listContainer
                  @ [(listContainer ! i)\<lparr>checked := True, completed := True\<rparr>])
       \<and> (checked (listContainer ! i) \<longrightarrow>
            taskCheckboxClick i listContainer
              = listContainer[i := (listContainer ! i)\<lparr>checked := False, completed := False\<rparr>])"
  using assms by (simp add: taskCheckboxClick_def Let_def)

theorem checkbox_click_order_witness:
  "(1::nat) < length [timedTask, bankTask, rentTask]
   \<and> \<not> checked ([timedTask, bankTask, rentTask] ! 1)
   \<and> taskCheckboxClick 1 [timedTask, bankTask, rentTask]
       = [timedTask, rentTask, bankTask\<lparr>checked := True, completed := True\<rparr>]
   \<and> (2::nat) < length [timedTask, bankTask, rentTask]
   \<and> checked ([timedTask, bankTask, rentTask] ! 2)
   \<and> taskCheckboxClick 2 [timedTask, bankTask, rentTask]
       = [timedTask, bankTask, rentTask\<lparr>checked := False, completed := False\<rparr>]"
proof -
  have l1: "(1::nat) < length [timedTask, bankTask, rentTask]" by simp
  have l2: "(2::nat) < length [timedTask, bankTask, rentTask]" by simp
  have u: "\<not> checked ([timedTask, bankTask, rentTask] ! 1)"
    by (simp add: bankTask_def createTaskElement_def)
  have c: "checked ([timedTask, bankTask, rentTask] ! 2)"
    by (simp add: rentTask_def)
  from checkbox_click_order [OF l1] u
  have a: "taskCheckboxClick 1 [timedTask, bankTask, rentTask]
       = [timedTask, rentTask, bankTask\<lparr>checked := True, completed := True\<rparr>]"
    by simp
  from checkbox_click_order [OF l2] c
  have b: "taskCheckboxClick 2 [timedTask, bankTask, rentTask]
       = [timedTask, bankTask, rentTask\<lparr>checked := False, completed := False\<rparr>]"
    by simp
  from l1 l2 u c a b show ?thesis by blast
qed

subsection \<open>Reload\<close>

lemma all_completed_count:
  "(length (filter P xs) = length xs) = list_all P xs"
proof (induction xs)
  case Nil
  then show ?case by simp
next
  case (Cons x xs)
  have "length (filter P xs) \<noteq> Suc (length xs)"
    using length_filter_le [of P xs] by linarith
  then show ?case using Cons by simp
qed

lemma rollup_condition:
  "(0 < length (filter P ss) \<and> length (filter P ss) = length ss)
     = (ss \<noteq> [] \<and> list_all P ss)"
proof (cases "length (filter P ss) = length ss")
  case True
  then show ?thesis using all_completed_count [of P ss] by auto
next
  case False
  then show ?thesis using all_completed_count [of P ss] by simp
qed

lemma updateSubstepSummary_closed:
  "updateSubstepSummary li
     = li\<lparr>completed := (substeps li \<noteq> [] \<and> list_all s_completed (substeps li)),
          checked := (substeps li \<noteq> [] \<and> list_all s_completed (substeps li))\<rparr>"
  unfolding updateSubstepSummary_def Let_def rollup_condition
  by simp

lemma attach_with_id:
  "truthy (taskId li) \<Longrightarrow> attachTaskEventHandlers n li = (updateSubstepSummary li, n)"
  by (simp add: attachTaskEventHandlers_def updateSubstepSummary_def Let_def)

lemma loadTask_closed:
  assumes "r_id t \<noteq> []"
  shows "loadTask n t =
     (\<lparr>taskId = Some (r_id t), taskText = orElseStr (r_text t) ''Untitled'',
       taskDesc = r_desc t, priority = Some ''medium'',
       deadline = (if r_deadline t = [] then None else Some (r_deadline t)),
       etaMin = (if r_etaMin t = [] then None else Some (r_etaMin t)),
       isUrgent = Some (orElseStr (r_isUrgent t) ''false''),
       isImportant = Some (orElseStr (r_isImportant t) ''false''),
       matrixTouched = Some ''false'',
       elapsedMs = Some (orElseStr (r_elapsedMs t) ''0''),
       timerRunning = None, timerInterval = False,
       completed = (r_substeps t \<noteq> [] \<and> list_all s_completed (map loadSubstep (r_substeps t))),
       checked = (r_substeps t \<noteq> [] \<and> list_all s_completed (map loadSubstep (r_substeps t))),
       collapsed = r_collapsed t,
       substeps = map loadSubstep (r_substeps t)\<rparr>, n)"
  using assms
  by (simp add: loadTask_def createTaskElement_def attach_with_id truthy_def
      updateSubstepSummary_closed orElseStr_def Let_def)


lemma loadSubstep_serializeSubstep:
  "settledSubstep s \<Longrightarrow> loadSubstep (serializeSubstep s) = reloadedSubstep s"
  by (cases s)
     (auto simp: settledSubstep_def loadSubstep_def serializeSubstep_def reloadedSubstep_def
      createSubstepElement_def orElse_def orElseStr_def truthy_def Let_def
      split: option.splits)

lemma map_loadSubstep:
  "list_all settledSubstep ss \<Longrightarrow>
   map loadSubstep (map serializeSubstep ss) = map reloadedSubstep ss"
  by (simp add: list_all_iff loadSubstep_serializeSubstep)

lemma completed_reloaded:
  "list_all s_completed (map reloadedSubstep ss) = list_all s_completed ss"
  by (simp add: list_all_iff reloadedSubstep_def)

lemma truthy_Some: "truthy x \<Longrightarrow> \<exists>d. x = Some d \<and> d \<noteq> []"
  by (cases x) (auto simp: truthy_def)

lemma restore_attribute:
  "x \<noteq> Some [] \<Longrightarrow>
   (orElse x [] = [] \<longrightarrow> None = x) \<and> (orElse x [] \<noteq> [] \<longrightarrow> Some (orElse x []) = x)"
  by (cases x) (auto simp: orElse_def)

lemma loadTask_serializeTask:
  assumes "settledTask li" and "rolledUp li"
  shows "loadTask n (serializeTask li) = (reloaded li, n)"
proof -
  have subs: "map loadSubstep (map serializeSubstep (substeps li))
                = map reloadedSubstep (substeps li)"
  proof (rule map_loadSubstep)
    show "list_all settledSubstep (substeps li)" using assms(1) by (simp add: settledTask_def)
  qed
  have subs': "map (loadSubstep \<circ> serializeSubstep) (substeps li)
                = map reloadedSubstep (substeps li)"
    using subs by simp
  from assms(1) obtain tid where tid: "taskId li = Some tid" "tid \<noteq> []"
    using truthy_Some [of "taskId li"] by (auto simp: settledTask_def)
  from assms(1) obtain u where u: "isUrgent li = Some u" "u \<noteq> []"
    using truthy_Some [of "isUrgent li"] by (auto simp: settledTask_def)
  from assms(1) obtain i where i: "isImportant li = Some i" "i \<noteq> []"
    using truthy_Some [of "isImportant li"] by (auto simp: settledTask_def)
  from assms(1) obtain e where e: "elapsedMs li = Some e" "e \<noteq> []"
    using truthy_Some [of "elapsedMs li"] by (auto simp: settledTask_def)
  from assms(1) have tx: "taskText li \<noteq> []" and ck: "checked li = completed li"
    by (simp_all add: settledTask_def)
  from assms(1) have dl: "(orElse (deadline li) [] = [] \<longrightarrow> None = deadline li)
      \<and> (orElse (deadline li) [] \<noteq> [] \<longrightarrow> Some (orElse (deadline li) []) = deadline li)"
    using restore_attribute [of "deadline li"] by (simp add: settledTask_def)
  from assms(1) have eta: "(orElse (etaMin li) [] = [] \<longrightarrow> None = etaMin li)
      \<and> (orElse (etaMin li) [] \<noteq> [] \<longrightarrow> Some (orElse (etaMin li) []) = etaMin li)"
    using restore_attribute [of "etaMin li"] by (simp add: settledTask_def)
  have ser: "serializeTask li =
      \<lparr>r_id = tid, r_text = taskText li, r_desc = taskDesc li,
       r_deadline = orElse (deadline li) [], r_etaMin = orElse (etaMin li) [],
       r_completed = completed li, r_isUrgent = u, r_isImportant = i, r_elapsedMs = e,
       r_collapsed = collapsed li, r_substeps = map serializeSubstep (substeps li)\<rparr>"
    using tid u i e tx by (simp add: serializeTask_def orElse_def orElseStr_def)
  have roll: "completed li = (substeps li \<noteq> [] \<and> list_all s_completed (substeps li))"
    using assms(2) by (simp add: rolledUp_def)
  have "loadTask n (serializeTask li) =
     (\<lparr>taskId = Some tid, taskText = taskText li,
       taskDesc = taskDesc li, priority = Some ''medium'',
       deadline = deadline li, etaMin = etaMin li,
       isUrgent = Some u, isImportant = Some i,
       matrixTouched = Some ''false'',
       elapsedMs = Some e,
       timerRunning = None, timerInterval = False,
       completed = completed li, checked = completed li,
       collapsed = collapsed li,
       substeps = map reloadedSubstep (substeps li)\<rparr>, n)"
    unfolding ser
    using dl eta
    by (simp add: loadTask_closed tid(2) u(2) i(2) e(2) tx orElseStr_def subs'
        completed_reloaded roll [symmetric])
  also have "\<dots> = (reloaded li, n)"
    using tid(1) u(1) i(1) e(1) ck
    by (cases li) (simp add: reloaded_def)
  finally show ?thesis .
qed

lemma loadEach_saveTasks:
  assumes "\<forall>li \<in> set store. settledTask li \<and> rolledUp li"
  shows "loadEach (map serializeTask store) n acc = (acc @ map reloaded store, n)"
  using assms
proof (induction store arbitrary: acc)
  case Nil
  then show ?case by simp
next
  case (Cons li store)
  then have "loadTask n (serializeTask li) = (reloaded li, n)"
    by (simp add: loadTask_serializeTask)
  with Cons show ?case by simp
qed

text \<open>
  C3, as the code has it. Saving a list of tasks and loading it again gives the same
  tasks in the same order, each with its id, text, description, deadline, estimate,
  completed flag, urgent and important flags, elapsed time and collapsed state, and with
  all its sub-steps (id, text, completed, estimate, elapsed time), for tasks in a state
  the handlers leave them in whose completed flag agrees with their sub-steps (all done,
  or no sub-steps and not completed). The stored record has no field for the state of a
  timer, the priority or the mark of a manual classification: every timer comes back
  stopped, the priority comes back as medium and the mark as not set. The counter of
  ids is not advanced, and what the list held before is replaced.
\<close>

theorem reload_round_trip:
  assumes "\<forall>li \<in> set store. settledTask li \<and> rolledUp li"
  shows "loadTasks (Some (saveTasks store)) n old = (map reloaded store, n)
         \<and> list_all (\<lambda>li. \<not> timerIsRunning li) (map reloaded store)"
proof -
  have "loadEach (map serializeTask store) n [] = ([] @ map reloaded store, n)"
    using assms by (rule loadEach_saveTasks)
  then have a: "loadTasks (Some (saveTasks store)) n old = (map reloaded store, n)"
    by (simp add: loadTasks_def saveTasks_def)
  have b: "list_all (\<lambda>li. \<not> timerIsRunning li) (map reloaded store)"
    by (simp add: list_all_iff timerIsRunning_def reloaded_def)
  from a b show ?thesis by blast
qed

theorem reload_round_trip_witness:
  "settledTask reportTask \<and> rolledUp reportTask
   \<and> settledTask timedTask \<and> rolledUp timedTask
   \<and> settledTask bankTask \<and> rolledUp bankTask
   \<and> loadTasks (Some (saveTasks [reportTask, timedTask, bankTask])) 0 []
       = ([reportTask, timedTask\<lparr>timerRunning := None\<rparr>, bankTask], 0)
   \<and> elapsedMs timedTask = Some ''65000'' \<and> \<not> timerIsRunning timedTask
   \<and> \<not> timerIsRunning (timedTask\<lparr>timerRunning := None\<rparr>)"
proof -
  have s1: "settledTask reportTask \<and> rolledUp reportTask"
    by (simp add: settledTask_def rolledUp_def settledSubstep_def reportTask_def
        createTaskElement_def createSubstepElement_def truthy_def)
  have s2: "settledTask timedTask \<and> rolledUp timedTask"
    by (simp add: settledTask_def rolledUp_def timedTask_def createTaskElement_def truthy_def)
  have s3: "settledTask bankTask \<and> rolledUp bankTask"
    by (simp add: settledTask_def rolledUp_def bankTask_def createTaskElement_def truthy_def)
  have h: "\<forall>li \<in> set [reportTask, timedTask, bankTask]. settledTask li \<and> rolledUp li"
    using s1 s2 s3 by simp
  have r1: "reloaded reportTask = reportTask"
    by (simp add: reloaded_def reloadedSubstep_def reportTask_def createTaskElement_def
        createSubstepElement_def)
  have r2: "reloaded timedTask = timedTask\<lparr>timerRunning := None\<rparr>"
    by (simp add: reloaded_def timedTask_def createTaskElement_def)
  have r3: "reloaded bankTask = bankTask"
    by (simp add: reloaded_def bankTask_def createTaskElement_def)
  have t: "elapsedMs timedTask = Some ''65000'' \<and> \<not> timerIsRunning timedTask
           \<and> \<not> timerIsRunning (timedTask\<lparr>timerRunning := None\<rparr>)"
    by (simp add: timedTask_def timerIsRunning_def createTaskElement_def)
  from reload_round_trip [OF h, of 0 "[]"]
  have "loadTasks (Some (saveTasks [reportTask, timedTask, bankTask])) 0 []
       = ([reportTask, timedTask\<lparr>timerRunning := None\<rparr>, bankTask], 0)"
    by (simp add: r1 r2 r3)
  with s1 s2 s3 t show ?thesis by blast
qed

text \<open>
  The claim as it is written fails for a task whose timer is running: it is in a state
  the handlers produce, it is saved and loaded, and it comes back with its timer
  stopped, so the loaded list is not the saved one.
\<close>

theorem reload_running_timer_counterexample:
  "settledTask runningTask \<and> rolledUp runningTask \<and> timerIsRunning runningTask
   \<and> map timerIsRunning (fst (loadTasks (Some (saveTasks [runningTask])) 0 [])) = [False]
   \<and> fst (loadTasks (Some (saveTasks [runningTask])) 0 []) \<noteq> [runningTask]"
proof -
  have s: "settledTask runningTask \<and> rolledUp runningTask \<and> timerIsRunning runningTask"
    by (simp add: settledTask_def rolledUp_def runningTask_def timedTask_def
        createTaskElement_def truthy_def timerIsRunning_def)
  then have "loadTask 0 (serializeTask runningTask) = (reloaded runningTask, 0)"
    by (simp add: loadTask_serializeTask)
  then have l: "fst (loadTasks (Some (saveTasks [runningTask])) 0 []) = [reloaded runningTask]"
    by (simp add: loadTasks_def saveTasks_def)
  have n: "\<not> timerIsRunning (reloaded runningTask)"
    by (simp add: timerIsRunning_def reloaded_def)
  with s have "reloaded runningTask \<noteq> runningTask" by auto
  with s l n show ?thesis by simp
qed

subsection \<open>Smart paste\<close>

lemmas paste_eval =
  smartParsePaste_def trimUnits_def listRegex_def isWhiteSpaceUnit_def isDigitUnit_def
  isBullet_def utf16_def pasteTitle_def Let_def

text \<open>
  C8 (the code departs from it). The parser does what the claim says for the markers it
  knows, and the text \<open>Buy milk / 1. eggs / 2. bread / - cheese\<close> gives the description
  \<open>Buy milk\<close>, the three steps with their markers and the title \<open>Buy milk\<close>; a text
  of list items only gets the title \<open>New Task\<close>. But the character class of the
  pattern holds, after \<open>-\<close> and \<open>*\<close>, the three characters U+00E2, U+20AC and U+00A2
  in place of the bullet U+2022. A line that starts with a bullet is therefore not a
  list item: for \<open>Buy milk / (bullet) cheese\<close> the parser returns no step and keeps the
  bullet line in the description. Lines that start with U+00E2, U+20AC or U+00A2 are
  list items.
\<close>

theorem bullet_line_is_no_step:
  "smartParsePaste (utf16 ''Buy milk'' @ [0x0A, 0x2022, 0x20] @ utf16 ''cheese'')
     = (utf16 ''Buy milk'' @ [0x0A, 0x2022, 0x20] @ utf16 ''cheese'', [])
   \<and> \<not> listRegex ([0x2022, 0x20] @ utf16 ''cheese'')
   \<and> listRegex ([0xE2, 0x20] @ utf16 ''cheese'')
   \<and> listRegex ([0x20AC, 0x20] @ utf16 ''cheese'')
   \<and> listRegex ([0xA2, 0x20] @ utf16 ''cheese'')
   \<and> listRegex (utf16 ''* cheese'') \<and> listRegex (utf16 ''- cheese'')
   \<and> listRegex (utf16 ''12. cheese'') \<and> \<not> listRegex (utf16 ''+ cheese'')
   \<and> \<not> listRegex (utf16 ''-cheese'') \<and> \<not> listRegex (utf16 ''12 cheese'')
   \<and> smartParsePaste (utf16 ''Buy milk\<newline>1. eggs\<newline>2. bread\<newline>- cheese'')
       = (utf16 ''Buy milk'', [utf16 ''1. eggs'', utf16 ''2. bread'', utf16 ''- cheese''])
   \<and> pasteTitle (utf16 ''Buy milk'') = utf16 ''Buy milk''
   \<and> pasteTitle (fst (smartParsePaste (utf16 ''- milk\<newline>- eggs''))) = utf16 ''New Task''"
proof -
  have a: "smartParsePaste (utf16 ''Buy milk'' @ [0x0A, 0x2022, 0x20] @ utf16 ''cheese'')
     = (utf16 ''Buy milk'' @ [0x0A, 0x2022, 0x20] @ utf16 ''cheese'', [])"
    by (simp add: paste_eval)
  have b: "\<not> listRegex ([0x2022, 0x20] @ utf16 ''cheese'')
   \<and> listRegex ([0xE2, 0x20] @ utf16 ''cheese'')
   \<and> listRegex ([0x20AC, 0x20] @ utf16 ''cheese'')
   \<and> listRegex ([0xA2, 0x20] @ utf16 ''cheese'')"
    by (simp add: paste_eval)
  have c: "listRegex (utf16 ''* cheese'') \<and> listRegex (utf16 ''- cheese'')
   \<and> listRegex (utf16 ''12. cheese'') \<and> \<not> listRegex (utf16 ''+ cheese'')
   \<and> \<not> listRegex (utf16 ''-cheese'') \<and> \<not> listRegex (utf16 ''12 cheese'')"
    by (simp add: paste_eval)
  have d: "smartParsePaste (utf16 ''Buy milk\<newline>1. eggs\<newline>2. bread\<newline>- cheese'')
       = (utf16 ''Buy milk'', [utf16 ''1. eggs'', utf16 ''2. bread'', utf16 ''- cheese''])"
    by (simp add: paste_eval)
  have e: "pasteTitle (utf16 ''Buy milk'') = utf16 ''Buy milk''"
    by (simp add: paste_eval)
  have f: "pasteTitle (fst (smartParsePaste (utf16 ''- milk\<newline>- eggs''))) = utf16 ''New Task''"
    by (simp add: paste_eval)
  from a b c d e f show ?thesis by blast
qed

end
